theory Spec2Isabelle
  imports Complex_Main "HOL-Library.Word" "HOL-Library.Multiset"
begin

unbundle bit_operations_syntax

section \<open>JavaScript values\<close>

text \<open>
  A JavaScript string is a sequence of UTF-16 code units; \<open>length\<close>, \<open>split\<close>,
  \<open>charCodeAt\<close> and \<open>includes\<close> all work on code units. String literals of the
  source are written \<open>js ''...''\<close>. Integers held in a \<open>number\<close> are modelled as
  \<open>int\<close> (every integer that occurs below is far smaller than \<open>2^53\<close>, where doubles
  are exact); \<open>NaN\<close> is \<open>None\<close>. A \<open>Date\<close> is a number of milliseconds.
\<close>

type_synonym jschar = "16 word"
type_synonym jsstring = "jschar list"
type_synonym date = nat

definition js :: "string \<Rightarrow> jsstring" where
  "js s = map (\<lambda>c. of_char c) s"

text \<open>\<open>s.split(sep)\<close> for a one-character separator: never the empty array.\<close>

fun split_on :: "jschar \<Rightarrow> jsstring \<Rightarrow> jsstring list" where
  "split_on sep [] = [[]]"
| "split_on sep (c # cs) =
     (if c = sep then [] # split_on sep cs
      else (case split_on sep cs of [] \<Rightarrow> [[c]] | l # ls \<Rightarrow> (c # l) # ls))"

text \<open>The decimal digits of a non-negative integer, as template literals print it.\<close>

fun show_nat :: "nat \<Rightarrow> jsstring" where
  "show_nat n = (if n < 10 then [of_nat (48 + n)] else show_nat (n div 10) @ [of_nat (48 + n mod 10)])"

declare show_nat.simps [simp del]

text \<open>
  \<open>a % b\<close> on integers: the sign of the result is that of the dividend, and the result
  is \<open>NaN\<close> when the divisor is zero.
\<close>

definition js_rem :: "int \<Rightarrow> int \<Rightarrow> int option" where
  "js_rem a b = (if b = 0 then None else Some (sgn a * (\<bar>a\<bar> mod \<bar>b\<bar>)))"

text \<open>
  \<open>parseInt(s, 16)\<close>: leading white space is skipped (the ASCII white space and the
  no-break space are modelled), then an optional sign, then an optional \<open>0x\<close>, then the
  longest run of hexadecimal digits; \<open>NaN\<close> when that run is empty.
\<close>

definition hex_digit_value :: "jschar \<Rightarrow> nat option" where
  "hex_digit_value c =
     (let code = unat c in
      if 48 \<le> code \<and> code \<le> 57 then Some (code - 48)
      else if 97 \<le> code \<and> code \<le> 102 then Some (code - 87)
      else if 65 \<le> code \<and> code \<le> 70 then Some (code - 55)
      else None)"

fun parse_digits16 :: "nat \<Rightarrow> jsstring \<Rightarrow> nat" where
  "parse_digits16 acc [] = acc"
| "parse_digits16 acc (c # cs) =
     (case hex_digit_value c of None \<Rightarrow> acc | Some d \<Rightarrow> parse_digits16 (16 * acc + d) cs)"

definition is_white_space :: "jschar \<Rightarrow> bool" where
  "is_white_space c = (unat c \<in> {9, 10, 11, 12, 13, 32, 160})"

definition parseInt16 :: "jsstring \<Rightarrow> int option" where
  "parseInt16 s =
     (let t = dropWhile is_white_space s;
          neg = (case t of [] \<Rightarrow> False | c # _ \<Rightarrow> c = 45);
          u = (case t of [] \<Rightarrow> t | c # r \<Rightarrow> if c = 45 \<or> c = 43 then r else t);
          v = (case u of a # b # r \<Rightarrow> if a = 48 \<and> (b = 120 \<or> b = 88) then r else u | _ \<Rightarrow> u)
      in case v of
           [] \<Rightarrow> None
         | c # _ \<Rightarrow>
             (case hex_digit_value c of
                None \<Rightarrow> None
              | Some _ \<Rightarrow> Some ((if neg then - 1 else 1) * int (parse_digits16 0 v))))"

section \<open>Project identifiers from repository paths (controllers/repository.ts)\<close>

text \<open>
  \<open>crypto.createHash('md5').update(path).digest('hex')\<close>: the MD5 function belongs to
  the Node runtime, so it is a parameter \<open>md5\<close> yielding the 128-bit digest;
  \<open>digest('hex')\<close> prints its sixteen bytes as thirty-two lower-case hexadecimal digits.
\<close>

definition hex_char :: "nat \<Rightarrow> jschar" where
  "hex_char n = (if n < 10 then of_nat (48 + n) else of_nat (87 + n))"

definition hex_digest :: "128 word \<Rightarrow> jsstring" where
  "hex_digest w = map (\<lambda>i. hex_char (unat (drop_bit (4 * (31 - i)) w AND 15))) [0..<32]"

definition generateProjectIdFromPath :: "(jsstring \<Rightarrow> 128 word) \<Rightarrow> jsstring \<Rightarrow> int option" where
  "generateProjectIdFromPath md5 path =
     (let hash = hex_digest (md5 path);
          truncatedHash = take 8 hash;
          numericId = parseInt16 truncatedHash
      in case numericId of
           None \<Rightarrow> None
         | Some n \<Rightarrow> map_option abs (js_rem n 2147483647))"

section \<open>Data model (models/embedding.ts)\<close>

text \<open>An embedding vector is an array of doubles, modelled as a list of reals.\<close>

type_synonym vec = "real list"

record CodeFile =
  path :: jsstring
  content :: jsstring
  language :: jsstring
  lastModified :: date

record CodeEmbedding =
  projectId :: int
  repositoryUrl :: jsstring
  filePath :: jsstring
  content :: jsstring
  embedding :: vec
  language :: jsstring
  commitId :: jsstring
  branch :: jsstring
  createdAt :: date
  updatedAt :: date

record ProjectMetadata =
  projectId :: int
  name :: jsstring
  description :: jsstring
  url :: jsstring
  defaultBranch :: jsstring
  lastProcessedCommit :: jsstring
  lastProcessedAt :: date

record EmbeddingBatch =
  projectId :: int
  commitId :: jsstring
  branch :: jsstring
  files :: "CodeFile list"
  embeddings :: "CodeEmbedding list"
  createdAt :: date

section \<open>Content filter and chunking (services/embedding.ts)\<close>

text \<open>
  \<open>isBinaryContent\<close>. The source compares the count with \<open>content.length * 0.1\<close> in
  double arithmetic. For an integer count \<open>c\<close> and a length \<open>n\<close> up to 100,000 (the guard
  below calls the function on no longer content) the test \<open>c > n * 0.1\<close> is the same as
  \<open>10 * c > n\<close>: the product is exact when \<open>n\<close> is a multiple of ten and otherwise lies
  strictly between the two neighbouring integers. The comparison is written on integers.
\<close>

definition isBinaryContent :: "jsstring \<Rightarrow> bool" where
  "isBinaryContent content' =
     (if 0 \<in> set content' then True
      else
        (let nonPrintableCount =
               length (filter (\<lambda>char. let code = unat char
                                        in code < 32 \<and> code \<noteq> 9 \<and> code \<noteq> 10 \<and> code \<noteq> 13) content')
         in 10 * nonPrintableCount > length content'))"

text \<open>
  The guard of \<open>generateEmbeddings\<close>: a file is skipped when
  \<open>!file.content || file.content.length > 100000 || this.isBinaryContent(file.content)\<close>.
\<close>

definition skipped_content :: "jsstring \<Rightarrow> bool" where
  "skipped_content content' =
     (content' = [] \<or> length content' > 100000 \<or> isBinaryContent content')"

definition eligible_content :: "jsstring \<Rightarrow> bool" where
  "eligible_content content' = (\<not> skipped_content content')"

definition chunk_path :: "CodeFile \<Rightarrow> nat \<Rightarrow> jsstring" where
  "chunk_path file chunkIndex = path file @ js ''#chunk'' @ show_nat chunkIndex"

definition make_chunk :: "CodeFile \<Rightarrow> nat \<Rightarrow> jsstring \<Rightarrow> CodeFile" where
  "make_chunk file chunkIndex currentChunk =
     file\<lparr>path := chunk_path file chunkIndex, CodeFile.content := currentChunk\<rparr>"

text \<open>The \<open>for (const line of lines)\<close> loop with its three variables, and the final push.\<close>

fun chunk_lines ::
  "CodeFile \<Rightarrow> nat \<Rightarrow> jsstring list \<Rightarrow> CodeFile list \<Rightarrow> jsstring \<Rightarrow> nat \<Rightarrow> CodeFile list" where
  "chunk_lines file maxChunkSize [] chunks currentChunk chunkIndex =
     (if currentChunk \<noteq> [] then chunks @ [make_chunk file chunkIndex currentChunk] else chunks)"
| "chunk_lines file maxChunkSize (line # lines) chunks currentChunk chunkIndex =
     (if length currentChunk + length line + 1 > maxChunkSize
      then chunk_lines file maxChunkSize lines
             (chunks @ [make_chunk file chunkIndex currentChunk]) (line @ [10]) (chunkIndex + 1)
      else chunk_lines file maxChunkSize lines chunks (currentChunk @ line @ [10]) chunkIndex)"

definition chunkCodeFile :: "CodeFile \<Rightarrow> nat \<Rightarrow> CodeFile list" where
  "chunkCodeFile file maxChunkSize =
     (if CodeFile.content file = [] \<or> length (CodeFile.content file) \<le> maxChunkSize then [file]
      else chunk_lines file maxChunkSize (split_on 10 (CodeFile.content file)) [] [] 0)"

section \<open>External collaborators and effects\<close>

datatype error = ProviderError | EmbeddingError | StorageError

text \<open>The statements sent to PostgreSQL; \<open>Connect\<close> stands for \<open>pool.connect()\<close>.\<close>

datatype stmt =
    Connect
  | SelectEmbeddingColumnType
  | Begin
  | Commit
  | Rollback
  | UpsertEmbedding bool CodeEmbedding
  | InsertBatch EmbeddingBatch
  | UpsertProject ProjectMetadata
  | SelectProject int
  | SelectByDistance "int option" vec int
  | SelectRecent "int option" int

record ProjectDetails =
  name :: jsstring
  description :: "jsstring option"
  web_url :: jsstring
  default_branch :: jsstring

record TreeItem =
  item_type :: jsstring
  item_path :: jsstring

text \<open>
  Everything outside the repository: the provider's REST API, the embedding model, the
  language model, the faults of the storage server, pgvector's distance operator, the
  runtime's \<open>toLowerCase\<close> and the clock.
\<close>

record env =
  project_details :: "int \<Rightarrow> error + ProjectDetails"
  repository_tree :: "int \<Rightarrow> jsstring \<Rightarrow> error + TreeItem list"
  raw_file :: "int \<Rightarrow> jsstring \<Rightarrow> jsstring \<Rightarrow> error + jsstring"
  embed_api :: "jsstring \<Rightarrow> error + vec"
  llm_analysis :: "jsstring \<Rightarrow> CodeEmbedding list \<Rightarrow> jsstring"
  query_fails :: "stmt \<Rightarrow> bool"
  cosine_distance :: "vec \<Rightarrow> vec \<Rightarrow> real"
  toLowerCase :: "jsstring \<Rightarrow> jsstring"
  now :: date

text \<open>A computation over a state that may throw: the state is kept when it does.\<close>

type_synonym ('s, 'a) run = "'s \<Rightarrow> (error + 'a) \<times> 's"

definition returnS :: "'a \<Rightarrow> ('s, 'a) run" where
  "returnS x s = (Inr x, s)"

definition throwS :: "error \<Rightarrow> ('s, 'a) run" where
  "throwS e s = (Inl e, s)"

definition bindS :: "('s, 'a) run \<Rightarrow> ('a \<Rightarrow> ('s, 'b) run) \<Rightarrow> ('s, 'b) run" where
  "bindS m f s = (case m s of (Inl e, s') \<Rightarrow> (Inl e, s') | (Inr x, s') \<Rightarrow> f x s')"

definition tryCatch :: "('s, 'a) run \<Rightarrow> (error \<Rightarrow> ('s, 'a) run) \<Rightarrow> ('s, 'a) run" where
  "tryCatch m h s = (case m s of (Inl e, s') \<Rightarrow> h e s' | (Inr x, s') \<Rightarrow> (Inr x, s'))"

fun forS :: "'a list \<Rightarrow> ('a \<Rightarrow> ('s, unit) run) \<Rightarrow> ('s, unit) run" where
  "forS [] f = returnS ()"
| "forS (x # xs) f = bindS (f x) (\<lambda>_. forS xs f)"

text \<open>
  \<open>Promise.all(batch.map(async ...))\<close>: the calls of one batch run concurrently in the
  source. They are modelled in list order, which fixes the order of their entries in the
  log and nothing else; every mapped function below catches its own errors.
\<close>

fun mapS :: "('a \<Rightarrow> ('s, 'b) run) \<Rightarrow> 'a list \<Rightarrow> ('s, 'b list) run" where
  "mapS f [] = returnS []"
| "mapS f (x # xs) = bindS (f x) (\<lambda>y. bindS (mapS f xs) (\<lambda>ys. returnS (y # ys)))"

fun foldS :: "('b \<Rightarrow> 'a \<Rightarrow> ('s, 'b) run) \<Rightarrow> 'a list \<Rightarrow> 'b \<Rightarrow> ('s, 'b) run" where
  "foldS f [] acc = returnS acc"
| "foldS f (x # xs) acc = bindS (f acc x) (\<lambda>acc'. foldS f xs acc')"

text \<open>\<open>xs.slice(i, i + n)\<close> for \<open>i = 0, n, 2n, ...\<close> while \<open>i < xs.length\<close>.\<close>

function slices :: "nat \<Rightarrow> 'a list \<Rightarrow> 'a list list" where
  "slices n xs = (if n = 0 \<or> xs = [] then [] else take n xs # slices n (drop n xs))"
  by pat_completeness auto
termination
  by (relation "measure (\<lambda>(n, xs). length xs)") auto

declare slices.simps [simp del]

section \<open>Storage engine (services/database.ts)\<close>

text \<open>
  The three relations. A table is the list of its rows; the column type of
  \<open>embeddings.embedding\<close> is \<open>vector\<close> or \<open>JSONB\<close>, as \<open>initializeSchema\<close> left it.
  The stored cell is modelled by the vector it holds in either representation. A row
  of \<open>batches\<close> keeps the project, the commit, the branch, the files and the creation
  time of the batch.
\<close>

datatype coltype = Vector | Jsonb

type_synonym batch_row = "int \<times> jsstring \<times> jsstring \<times> CodeFile list \<times> date"

record database =
  embedding_type :: coltype
  projects :: "ProjectMetadata list"
  embeddings :: "CodeEmbedding list"
  batches :: "batch_row list"

text \<open>
  \<open>INSERT ... ON CONFLICT (project_id, file_path) DO UPDATE SET content, embedding,
  language, commit_id, branch, updated_at\<close>: the columns \<open>repository_url\<close> and
  \<open>created_at\<close> of an existing row are not in the \<open>SET\<close> list.
\<close>

fun upsert_embedding :: "CodeEmbedding \<Rightarrow> CodeEmbedding list \<Rightarrow> CodeEmbedding list" where
  "upsert_embedding e [] = [e]"
| "upsert_embedding e (r # rs) =
     (if CodeEmbedding.projectId r = CodeEmbedding.projectId e \<and> filePath r = filePath e
      then r\<lparr>CodeEmbedding.content := CodeEmbedding.content e,
              embedding := embedding e,
              CodeEmbedding.language := CodeEmbedding.language e,
              CodeEmbedding.commitId := CodeEmbedding.commitId e,
              CodeEmbedding.branch := CodeEmbedding.branch e,
              updatedAt := updatedAt e\<rparr> # rs
      else r # upsert_embedding e rs)"

text \<open>
  \<open>INSERT ... ON CONFLICT (project_id) DO UPDATE SET\<close> every other column.
\<close>

fun upsert_project :: "ProjectMetadata \<Rightarrow> ProjectMetadata list \<Rightarrow> ProjectMetadata list" where
  "upsert_project m [] = [m]"
| "upsert_project m (r # rs) =
     (if ProjectMetadata.projectId r = ProjectMetadata.projectId m then m # rs
      else r # upsert_project m rs)"

definition batch_row_of :: "EmbeddingBatch \<Rightarrow> batch_row" where
  "batch_row_of batch =
     (EmbeddingBatch.projectId batch, EmbeddingBatch.commitId batch, EmbeddingBatch.branch batch,
      files batch, EmbeddingBatch.createdAt batch)"

text \<open>
  A pooled client: the committed store and, between \<open>BEGIN\<close> and \<open>COMMIT\<close> or
  \<open>ROLLBACK\<close>, the working copy of the open transaction. Outside a transaction every
  statement commits at once; inside one, statements change the working copy only, and what
  it holds is not in the store until \<open>COMMIT\<close>.
\<close>

record client =
  store :: database
  txn :: "database option"

definition view :: "client \<Rightarrow> database" where
  "view c = (case txn c of None \<Rightarrow> store c | Some d \<Rightarrow> d)"

definition write_tables :: "(database \<Rightarrow> database) \<Rightarrow> client \<Rightarrow> client" where
  "write_tables f c = (case txn c of None \<Rightarrow> c\<lparr>store := f (store c)\<rparr> | Some d \<Rightarrow> c\<lparr>txn := Some (f d)\<rparr>)"

fun apply_stmt :: "stmt \<Rightarrow> client \<Rightarrow> client" where
  "apply_stmt Begin c = c\<lparr>txn := Some (view c)\<rparr>"
| "apply_stmt Commit c = \<lparr>store = view c, txn = None\<rparr>"
| "apply_stmt Rollback c = c\<lparr>txn := None\<rparr>"
| "apply_stmt (UpsertEmbedding isVector e) c =
     write_tables (\<lambda>d. d\<lparr>embeddings := upsert_embedding e (embeddings d)\<rparr>) c"
| "apply_stmt (InsertBatch batch) c =
     write_tables (\<lambda>d. d\<lparr>batches := batches d @ [batch_row_of batch]\<rparr>) c"
| "apply_stmt (UpsertProject m) c =
     write_tables (\<lambda>d. d\<lparr>projects := upsert_project m (projects d)\<rparr>) c"
| "apply_stmt _ c = c"

text \<open>\<open>client.query\<close>: a statement fails without effect or it is applied.\<close>

definition query :: "env \<Rightarrow> stmt \<Rightarrow> (client, unit) run" where
  "query E q c = (if query_fails E q then (Inl StorageError, c) else (Inr (), apply_stmt q c))"

definition select :: "env \<Rightarrow> stmt \<Rightarrow> (database \<Rightarrow> 'a) \<Rightarrow> (client, 'a) run" where
  "select E q rows c = (if query_fails E q then (Inl StorageError, c) else (Inr (rows (view c)), c))"

text \<open>
  \<open>const client = await this.pool.connect(); try { ... } finally { client.release() }\<close>

  The second component of the body's result is the client as \<open>release\<close> hands it back
  to the pool, with its session and any transaction it still has open. \<open>with_client\<close>
  passes on the committed store of that client and lets the body start on a client with
  no open transaction. That start is what the methods themselves maintain: every method
  but \<open>saveEmbeddings\<close> sends statements outside a transaction and releases the client
  as it took it, and \<open>saveEmbeddings\<close> releases it with no open transaction whenever
  its \<open>ROLLBACK\<close> is executed (both are proved below, on the bodies). A client
  released after a \<open>ROLLBACK\<close> that itself failed is not followed further.
\<close>

definition with_client :: "env \<Rightarrow> (client, 'a) run \<Rightarrow> (database, 'a) run" where
  "with_client E body d =
     (if query_fails E Connect then (Inl StorageError, d)
      else (case body \<lparr>store = d, txn = None\<rparr> of (r, c) \<Rightarrow> (r, store c)))"

text \<open>
  \<open>SELECT data_type FROM information_schema.columns ...\<close> and
  \<open>isVector = res.rows.length > 0 && res.rows[0].data_type === 'vector'\<close>.
  For a column of pgvector's type, which is not a built-in type, the view
  \<open>information_schema.columns\<close> reports the data type \<open>USER-DEFINED\<close> (the name
  \<open>vector\<close> is in \<open>udt_name\<close>); for a JSONB column it reports \<open>jsonb\<close>.
\<close>

definition reported_data_type :: "coltype \<Rightarrow> jsstring" where
  "reported_data_type t = (case t of Vector \<Rightarrow> js ''USER-DEFINED'' | Jsonb \<Rightarrow> js ''jsonb'')"

definition select_isVector :: "env \<Rightarrow> (client, bool) run" where
  "select_isVector E =
     select E SelectEmbeddingColumnType
       (\<lambda>d. reported_data_type (embedding_type d) = js ''vector'')"

definition saveEmbedding :: "env \<Rightarrow> CodeEmbedding \<Rightarrow> (database, unit) run" where
  "saveEmbedding E embedding' =
     with_client E
       (tryCatch
          (bindS (select_isVector E) (\<lambda>isVector.
             if isVector then query E (UpsertEmbedding True embedding')
             else query E (UpsertEmbedding False embedding')))
          (\<lambda>error. throwS error))"

text \<open>
  \<open>saveEmbeddings\<close>: the \<open>try\<close> block, then the block with its \<open>catch\<close> (which sends
  \<open>ROLLBACK\<close> and throws the error again), then the whole method.
\<close>

definition saveEmbeddings_try :: "env \<Rightarrow> CodeEmbedding list \<Rightarrow> (client, unit) run" where
  "saveEmbeddings_try E embeddings' =
     bindS (select_isVector E) (\<lambda>isVector.
     bindS (query E Begin) (\<lambda>_.
     bindS (forS embeddings' (\<lambda>embedding'.
              if isVector then query E (UpsertEmbedding True embedding')
              else query E (UpsertEmbedding False embedding'))) (\<lambda>_.
     query E Commit)))"

definition saveEmbeddings_session :: "env \<Rightarrow> CodeEmbedding list \<Rightarrow> (client, unit) run" where
  "saveEmbeddings_session E embeddings' =
     tryCatch (saveEmbeddings_try E embeddings')
       (\<lambda>error. bindS (query E Rollback) (\<lambda>_. throwS error))"

definition saveEmbeddings :: "env \<Rightarrow> CodeEmbedding list \<Rightarrow> (database, unit) run" where
  "saveEmbeddings E embeddings' =
     (if embeddings' = [] then returnS ()
      else with_client E (saveEmbeddings_session E embeddings'))"

definition saveBatch :: "env \<Rightarrow> EmbeddingBatch \<Rightarrow> (database, unit) run" where
  "saveBatch E batch =
     with_client E (tryCatch (query E (InsertBatch batch)) (\<lambda>error. throwS error))"

definition updateProjectMetadata :: "env \<Rightarrow> ProjectMetadata \<Rightarrow> (database, unit) run" where
  "updateProjectMetadata E metadata =
     with_client E (tryCatch (query E (UpsertProject metadata)) (\<lambda>error. throwS error))"

text \<open>\<open>null\<close> when no row matches, else \<open>result.rows[0]\<close>.\<close>

definition getProjectMetadata :: "env \<Rightarrow> int \<Rightarrow> (database, ProjectMetadata option) run" where
  "getProjectMetadata E projectId' =
     with_client E
       (tryCatch
          (select E (SelectProject projectId')
             (\<lambda>d. find (\<lambda>m. ProjectMetadata.projectId m = projectId') (projects d)))
          (\<lambda>error. throwS error))"

text \<open>
  The two \<open>SELECT\<close>s of the search. \<open>ORDER BY\<close> is modelled by a stable sort (SQL leaves
  the order of ties open); \<open>LIMIT\<close> with a negative count is an error of the server.
  The scope is one project (\<open>WHERE project_id = $n\<close>) or every row.
\<close>

definition in_scope :: "int option \<Rightarrow> CodeEmbedding \<Rightarrow> bool" where
  "in_scope scope r = (case scope of None \<Rightarrow> True | Some p \<Rightarrow> CodeEmbedding.projectId r = p)"

definition rows_by_distance :: "env \<Rightarrow> int option \<Rightarrow> vec \<Rightarrow> int \<Rightarrow> database \<Rightarrow> CodeEmbedding list" where
  "rows_by_distance E scope v limit' d =
     take (nat limit')
       (sort_key (\<lambda>r. cosine_distance E (embedding r) v) (filter (in_scope scope) (embeddings d)))"

definition rows_by_recency :: "int option \<Rightarrow> int \<Rightarrow> database \<Rightarrow> CodeEmbedding list" where
  "rows_by_recency scope limit' d =
     take (nat limit') (rev (sort_key updatedAt (filter (in_scope scope) (embeddings d))))"

definition limited_select ::
  "env \<Rightarrow> stmt \<Rightarrow> int \<Rightarrow> (database \<Rightarrow> 'a) \<Rightarrow> (client, 'a) run" where
  "limited_select E q limit' rows = (if limit' < 0 then throwS StorageError else select E q rows)"

text \<open>
  The body shared by \<open>searchSimilarCode\<close> (scope \<open>Some projectId\<close>) and
  \<open>searchSimilarCodeAcrossProjects\<close> (scope \<open>None\<close>): the two methods differ in the
  \<open>WHERE\<close> clause only. A failing vector query is caught and falls through to the
  recency query.
\<close>

definition search_body :: "env \<Rightarrow> int option \<Rightarrow> vec \<Rightarrow> int \<Rightarrow> (client, CodeEmbedding list) run" where
  "search_body E scope embedding' limit' =
     tryCatch
       (bindS (select_isVector E) (\<lambda>isVector.
          let fallback = limited_select E (SelectRecent scope limit') limit'
                           (rows_by_recency scope limit')
          in if isVector
             then tryCatch
                    (limited_select E (SelectByDistance scope embedding' limit') limit'
                       (rows_by_distance E scope embedding' limit'))
                    (\<lambda>error. fallback)
             else fallback))
       (\<lambda>error. throwS error)"

definition searchSimilarCode ::
  "env \<Rightarrow> int \<Rightarrow> vec \<Rightarrow> int \<Rightarrow> (database, CodeEmbedding list) run" where
  "searchSimilarCode E projectId' embedding' limit' =
     with_client E (search_body E (Some projectId') embedding' limit')"

definition searchSimilarCodeAcrossProjects ::
  "env \<Rightarrow> vec \<Rightarrow> int \<Rightarrow> (database, CodeEmbedding list) run" where
  "searchSimilarCodeAcrossProjects E embedding' limit' =
     with_client E (search_body E None embedding' limit')"

section \<open>The running system: storage and a log of service calls\<close>

text \<open>
  Each call of a service method is logged when it is made, whether it succeeds or
  throws, so that "no fetch", "no embedding call" and "no storage write" are
  statements about the log.
\<close>

datatype effect =
    ProviderProject int
  | ProviderTree int jsstring
  | ProviderFile int jsstring jsstring
  | EmbeddingCall jsstring
  | LlmCall jsstring
  | DbGetProjectMetadata int
  | DbSearch "int option" int
  | DbSaveEmbeddings "CodeEmbedding list"
  | DbSaveBatch EmbeddingBatch
  | DbUpdateProjectMetadata ProjectMetadata




record world =
  db :: database
  trace :: "effect list"

definition log :: "effect \<Rightarrow> world \<Rightarrow> world" where
  "log x w = w\<lparr>trace := trace w @ [x]\<rparr>"

definition external :: "effect \<Rightarrow> error + 'a \<Rightarrow> (world, 'a) run" where
  "external x r w = (r, log x w)"

definition storage :: "effect \<Rightarrow> (database, 'a) run \<Rightarrow> (world, 'a) run" where
  "storage x operation w = (case operation (db w) of (r, d) \<Rightarrow> (r, (log x w)\<lparr>db := d\<rparr>))"

section \<open>Repository provider adapter (services/gitlab.ts)\<close>

definition getRepositoryTree :: "env \<Rightarrow> int \<Rightarrow> jsstring \<Rightarrow> (world, TreeItem list) run" where
  "getRepositoryTree E projectId' ref' =
     tryCatch (external (ProviderTree projectId' ref') (repository_tree E projectId' ref'))
       (\<lambda>error. throwS error)"

definition getFileContent :: "env \<Rightarrow> int \<Rightarrow> jsstring \<Rightarrow> jsstring \<Rightarrow> (world, jsstring) run" where
  "getFileContent E projectId' filePath' ref' =
     tryCatch (external (ProviderFile projectId' filePath' ref') (raw_file E projectId' filePath' ref'))
       (\<lambda>error. returnS [])"

definition getProject :: "env \<Rightarrow> int \<Rightarrow> (world, ProjectDetails) run" where
  "getProject E projectId' =
     tryCatch (external (ProviderProject projectId') (project_details E projectId'))
       (\<lambda>error. throwS error)"

text \<open>
  The extension table of \<open>detectLanguage\<close>, looked up with the own keys of the object
  literal. The source's \<open>languageMap[extension]\<close> also finds the keys inherited from
  \<open>Object.prototype\<close>; for the two that are lower-case, \<open>constructor\<close> and
  \<open>__proto__\<close>, it returns a value that is not a string, where this definition returns
  \<open>text\<close>. The tag is carried along and stored; nothing below depends on its value.
\<close>

definition languageMap :: "(jsstring \<times> jsstring) list" where
  "languageMap =
     [(js ''js'', js ''javascript''), (js ''jsx'', js ''javascript''),
      (js ''ts'', js ''typescript''), (js ''tsx'', js ''typescript''),
      (js ''py'', js ''python''), (js ''rb'', js ''ruby''), (js ''java'', js ''java''),
      (js ''go'', js ''go''), (js ''php'', js ''php''), (js ''cs'', js ''csharp''),
      (js ''cpp'', js ''cpp''), (js ''c'', js ''c''), (js ''h'', js ''c''),
      (js ''hpp'', js ''cpp''), (js ''html'', js ''html''), (js ''css'', js ''css''),
      (js ''scss'', js ''scss''), (js ''json'', js ''json''), (js ''md'', js ''markdown''),
      (js ''yml'', js ''yaml''), (js ''yaml'', js ''yaml''), (js ''sh'', js ''shell''),
      (js ''bash'', js ''shell''), (js ''sql'', js ''sql''), (js ''swift'', js ''swift''),
      (js ''kt'', js ''kotlin''), (js ''rs'', js ''rust'')]"

definition detectLanguage :: "env \<Rightarrow> jsstring \<Rightarrow> jsstring" where
  "detectLanguage E filePath' =
     (let extension = toLowerCase E (last (split_on 46 filePath'))
      in case map_of languageMap extension of
           None \<Rightarrow> js ''text''
         | Some tag \<Rightarrow> if tag = [] then js ''text'' else tag)"

definition somes :: "'a option list \<Rightarrow> 'a list" where
  "somes xs = List.map_filter (\<lambda>x. x) xs"

definition getAllFiles :: "env \<Rightarrow> int \<Rightarrow> jsstring \<Rightarrow> (world, CodeFile list) run" where
  "getAllFiles E projectId' ref' =
     tryCatch
       (bindS (getRepositoryTree E projectId' ref') (\<lambda>tree.
          let fileEntries = filter (\<lambda>item. item_type item = js ''blob'') tree
          in foldS
               (\<lambda>files' batch.
                  bindS (mapS
                           (\<lambda>file.
                              tryCatch
                                (bindS (getFileContent E projectId' (item_path file) ref') (\<lambda>content'.
                                   returnS (Some \<lparr>path = item_path file,
                                                  CodeFile.content = content',
                                                  CodeFile.language = detectLanguage E (item_path file),
                                                  lastModified = now E\<rparr>)))
                                (\<lambda>error. returnS None))
                           batch)
                    (\<lambda>batchResults. returnS (files' @ somes batchResults)))
               (slices 10 fileEntries) []))
       (\<lambda>error. throwS error)"

section \<open>Embedding generator (services/embedding.ts)\<close>

definition generateEmbedding :: "env \<Rightarrow> jsstring \<Rightarrow> (world, vec) run" where
  "generateEmbedding E text' =
     tryCatch (external (EmbeddingCall text') (embed_api E text')) (\<lambda>error. throwS error)"

definition generateEmbeddings ::
  "env \<Rightarrow> CodeFile list \<Rightarrow> int \<Rightarrow> jsstring \<Rightarrow> jsstring \<Rightarrow> (world, CodeEmbedding list) run" where
  "generateEmbeddings E files' projectId' commitId' branch' =
     foldS
       (\<lambda>embeddings' batch.
          bindS (mapS
                   (\<lambda>file.
                      tryCatch
                        (if skipped_content (CodeFile.content file) then returnS None
                         else bindS (generateEmbedding E (CodeFile.content file)) (\<lambda>embedding'.
                                returnS (Some \<lparr>CodeEmbedding.projectId = projectId',
                                               repositoryUrl = [],
                                               filePath = path file,
                                               CodeEmbedding.content = CodeFile.content file,
                                               embedding = embedding',
                                               CodeEmbedding.language = CodeFile.language file,
                                               CodeEmbedding.commitId = commitId',
                                               CodeEmbedding.branch = branch',
                                               CodeEmbedding.createdAt = now E,
                                               updatedAt = now E\<rparr>)))
                        (\<lambda>error. returnS None))
                   batch)
            (\<lambda>batchResults. returnS (embeddings' @ somes batchResults)))
       (slices 5 files') []"

section \<open>Event dispatcher (controllers/webhook.ts)\<close>

text \<open>The fields of the webhook payloads that the handlers read.\<close>

record GitLabProject =
  id' :: int
  web_url :: jsstring

record GitLabPushEvent =
  after :: jsstring
  ref :: jsstring
  project_id :: int
  project :: GitLabProject

record GitLabMergeRequestAttributes =
  iid :: int
  source_branch :: jsstring
  last_commit_id :: jsstring
  action :: "jsstring option"

record GitLabMergeRequestEvent =
  project :: GitLabProject
  object_attributes :: GitLabMergeRequestAttributes

datatype GitLabWebhookEvent =
    Push GitLabPushEvent
  | MergeRequest GitLabMergeRequestEvent
  | OtherKind jsstring

text \<open>\<open>s.replace(pattern, replacement)\<close> with a string pattern: the first occurrence.\<close>

fun replace_first :: "jsstring \<Rightarrow> jsstring \<Rightarrow> jsstring \<Rightarrow> jsstring" where
  "replace_first pat rep [] = (if pat = [] then rep else [])"
| "replace_first pat rep (c # cs) =
     (if take (length pat) (c # cs) = pat then rep @ drop (length pat) (c # cs)
      else c # replace_first pat rep cs)"

text \<open>How a handler ended: the branch it returned from, or the error its \<open>catch\<close> logged.\<close>

datatype outcome =
    SkippedBranchDeletion
  | SkippedAlreadyProcessed
  | SkippedNoFiles
  | SkippedAction
  | IgnoredKind
  | Completed
  | Failed error

definition zero_sha :: jsstring where
  "zero_sha = js ''0000000000000000000000000000000000000000''"

text \<open>
  \<open>let projectMetadata = await dbService.getProjectMetadata(projectId)\<close>, and the record
  built from the provider's project details when there is none.
\<close>

definition resolve_metadata :: "env \<Rightarrow> int \<Rightarrow> (world, ProjectMetadata) run" where
  "resolve_metadata E projectId' =
     bindS (storage (DbGetProjectMetadata projectId') (getProjectMetadata E projectId')) (\<lambda>found.
       case found of
         Some projectMetadata \<Rightarrow> returnS projectMetadata
       | None \<Rightarrow>
           bindS (getProject E projectId') (\<lambda>projectDetails.
             returnS \<lparr>ProjectMetadata.projectId = projectId',
                      ProjectMetadata.name = ProjectDetails.name projectDetails,
                      ProjectMetadata.description =
                        (case ProjectDetails.description projectDetails of None \<Rightarrow> [] | Some d \<Rightarrow> d),
                      url = ProjectDetails.web_url projectDetails,
                      defaultBranch = default_branch projectDetails,
                      lastProcessedCommit = [],
                      lastProcessedAt = now E\<rparr>))"

text \<open>
  The tail shared by both handlers, from \<open>generateEmbeddings\<close> to the update of the
  project metadata.
\<close>

definition embed_and_store ::
  "env \<Rightarrow> ProjectMetadata \<Rightarrow> CodeFile list \<Rightarrow> int \<Rightarrow> jsstring \<Rightarrow> jsstring \<Rightarrow> jsstring
     \<Rightarrow> (world, outcome) run" where
  "embed_and_store E projectMetadata files' projectId' commitId' branch' repositoryUrl' =
     bindS (generateEmbeddings E files' projectId' commitId' branch') (\<lambda>generated.
       let embeddings' = map (\<lambda>embedding'. embedding'\<lparr>repositoryUrl := repositoryUrl'\<rparr>) generated;
           batch = \<lparr>EmbeddingBatch.projectId = projectId',
                    EmbeddingBatch.commitId = commitId',
                    EmbeddingBatch.branch = branch',
                    files = files',
                    EmbeddingBatch.embeddings = embeddings',
                    EmbeddingBatch.createdAt = now E\<rparr>;
           updated = projectMetadata\<lparr>lastProcessedCommit := commitId', lastProcessedAt := now E\<rparr>
       in bindS (storage (DbSaveEmbeddings embeddings') (saveEmbeddings E embeddings')) (\<lambda>_.
          bindS (storage (DbSaveBatch batch) (saveBatch E batch)) (\<lambda>_.
          bindS (storage (DbUpdateProjectMetadata updated) (updateProjectMetadata E updated)) (\<lambda>_.
          returnS Completed))))"

definition push_body :: "env \<Rightarrow> GitLabPushEvent \<Rightarrow> (world, outcome) run" where
  "push_body E event =
     (if after event = zero_sha then returnS SkippedBranchDeletion
      else
        (let projectId' = project_id event;
             commitId' = after event;
             branch' = replace_first (js ''refs/heads/'') [] (ref event)
         in bindS (resolve_metadata E projectId') (\<lambda>projectMetadata.
              if lastProcessedCommit projectMetadata = commitId' then returnS SkippedAlreadyProcessed
              else
                bindS (getAllFiles E projectId' commitId') (\<lambda>files'.
                  if length files' = 0 then returnS SkippedNoFiles
                  else embed_and_store E projectMetadata files' projectId' commitId' branch'
                         (GitLabProject.web_url (GitLabPushEvent.project event))))))"

definition finish :: "(error + outcome) \<times> world \<Rightarrow> outcome \<times> world" where
  "finish r = (case r of (Inl error, w) \<Rightarrow> (Failed error, w) | (Inr out, w) \<Rightarrow> (out, w))"

definition processPushEvent :: "env \<Rightarrow> GitLabPushEvent \<Rightarrow> world \<Rightarrow> outcome \<times> world" where
  "processPushEvent E event w = finish (push_body E event w)"

definition merge_request_body :: "env \<Rightarrow> GitLabMergeRequestEvent \<Rightarrow> (world, outcome) run" where
  "merge_request_body E event =
     (if (case action (object_attributes event) of None \<Rightarrow> [] | Some a \<Rightarrow> a)
           \<notin> set [js ''open'', js ''update'']
      then returnS SkippedAction
      else
        (let projectId' = id' (GitLabMergeRequestEvent.project event);
             sourceBranch = source_branch (object_attributes event);
             commitId' = last_commit_id (object_attributes event)
         in bindS (resolve_metadata E projectId') (\<lambda>projectMetadata.
              bindS (getAllFiles E projectId' sourceBranch) (\<lambda>files'.
                if length files' = 0 then returnS SkippedNoFiles
                else embed_and_store E projectMetadata files' projectId' commitId' sourceBranch
                       (GitLabProject.web_url (GitLabMergeRequestEvent.project event))))))"

definition processMergeRequestEvent ::
  "env \<Rightarrow> GitLabMergeRequestEvent \<Rightarrow> world \<Rightarrow> outcome \<times> world" where
  "processMergeRequestEvent E event w = finish (merge_request_body E event w)"

text \<open>
  \<open>processWebhook\<close> answers 202 before it dispatches on \<open>object_kind\<close>; what is
  modelled here is the processing that follows.
\<close>

fun processWebhook :: "env \<Rightarrow> GitLabWebhookEvent \<Rightarrow> world \<Rightarrow> outcome \<times> world" where
  "processWebhook E (Push event) w = processPushEvent E event w"
| "processWebhook E (MergeRequest event) w = processMergeRequestEvent E event w"
| "processWebhook E (OtherKind kind) w = (IgnoredKind, w)"

text \<open>The effects a handler added to the log.\<close>

definition new_effects :: "world \<Rightarrow> world \<Rightarrow> effect list" where
  "new_effects w w' = drop (length (trace w)) (trace w')"

section \<open>Search (controllers/search.ts, services/llm.ts)\<close>

record SearchRequest =
  query' :: "jsstring option"
  projectId :: "int option"
  limit :: "int option"
  analyze :: bool

record SearchResultItem =
  projectId :: int
  repositoryUrl :: jsstring
  filePath :: jsstring
  language :: jsstring
  content :: jsstring
  commitId :: jsstring
  branch :: jsstring
  createdAt :: date

datatype search_json =
    ErrorBody jsstring
  | NoMatchBody jsstring jsstring "SearchResultItem list"
  | ResultsBody jsstring "SearchResultItem list" "jsstring option" nat date

record http_response =
  status :: nat
  body :: search_json

text \<open>\<open>analyzeCode\<close> catches every error and returns a string in all cases.\<close>

definition analyzeCode :: "env \<Rightarrow> jsstring \<Rightarrow> CodeEmbedding list \<Rightarrow> (world, jsstring) run" where
  "analyzeCode E q codeSnippets = external (LlmCall q) (Inr (llm_analysis E q codeSnippets))"

definition result_item :: "CodeEmbedding \<Rightarrow> SearchResultItem" where
  "result_item result =
     \<lparr>SearchResultItem.projectId = CodeEmbedding.projectId result,
      SearchResultItem.repositoryUrl = CodeEmbedding.repositoryUrl result,
      SearchResultItem.filePath = CodeEmbedding.filePath result,
      SearchResultItem.language = CodeEmbedding.language result,
      SearchResultItem.content = CodeEmbedding.content result,
      SearchResultItem.commitId = CodeEmbedding.commitId result,
      SearchResultItem.branch = CodeEmbedding.branch result,
      SearchResultItem.createdAt = CodeEmbedding.createdAt result\<rparr>"

definition search_results :: "env \<Rightarrow> SearchRequest \<Rightarrow> vec \<Rightarrow> (world, CodeEmbedding list) run" where
  "search_results E req queryEmbedding =
     (let limit' = (case limit req of None \<Rightarrow> 10 | Some l \<Rightarrow> l)
      in case SearchRequest.projectId req of
           Some p \<Rightarrow>
             if p \<noteq> 0
             then storage (DbSearch (Some p) limit') (searchSimilarCode E p queryEmbedding limit')
             else storage (DbSearch None limit') (searchSimilarCodeAcrossProjects E queryEmbedding limit')
         | None \<Rightarrow>
             storage (DbSearch None limit') (searchSimilarCodeAcrossProjects E queryEmbedding limit'))"

definition search_handler :: "env \<Rightarrow> SearchRequest \<Rightarrow> jsstring \<Rightarrow> (world, http_response) run" where
  "search_handler E req q =
     bindS (generateEmbedding E q) (\<lambda>queryEmbedding.
     bindS (search_results E req queryEmbedding) (\<lambda>results.
       if length results = 0
       then returnS \<lparr>status = 404, body = NoMatchBody (js ''No matching code found'') q []\<rparr>
       else
         bindS (if analyze req \<and> length results > 0
                then bindS (analyzeCode E q results) (\<lambda>a. returnS (Some a))
                else returnS None) (\<lambda>analysis.
           returnS \<lparr>status = 200,
                    body = ResultsBody q (map result_item results) analysis (length results) (now E)\<rparr>)))"

definition searchCode :: "env \<Rightarrow> SearchRequest \<Rightarrow> world \<Rightarrow> http_response \<times> world" where
  "searchCode E req w =
     (case query' req of
        None \<Rightarrow> (\<lparr>status = 400, body = ErrorBody (js ''Search query is required'')\<rparr>, w)
      | Some q \<Rightarrow>
          if q = [] then (\<lparr>status = 400, body = ErrorBody (js ''Search query is required'')\<rparr>, w)
          else
            (case search_handler E req q w of
               (Inl error, w') \<Rightarrow> (\<lparr>status = 500, body = ErrorBody (js ''Internal server error'')\<rparr>, w')
             | (Inr response, w') \<Rightarrow> (response, w')))"

section \<open>Notions used in the statements\<close>

text \<open>A lower-case hexadecimal digit, as \<open>digest('hex')\<close> prints them.\<close>

definition lower_hex :: "jschar \<Rightarrow> bool" where
  "lower_hex c = (\<exists>n<16. c = hex_char n)"

text \<open>Reading decimal digits back, the inverse of \<open>show_nat\<close>.\<close>

fun read_nat :: "nat \<Rightarrow> jsstring \<Rightarrow> nat" where
  "read_nat a [] = a"
| "read_nat a (c # cs) = read_nat (10 * a + (unat c - 48)) cs"

text \<open>
  The characters the binary heuristic counts: control characters other than tab, line
  feed and carriage return.
\<close>

definition non_printable :: "jschar \<Rightarrow> bool" where
  "non_printable c = (unat c < 32 \<and> unat c \<noteq> 9 \<and> unat c \<noteq> 10 \<and> unat c \<noteq> 13)"

text \<open>Every line of the file, with its line feed, fits in one chunk.\<close>

definition lines_fit :: "CodeFile \<Rightarrow> nat \<Rightarrow> bool" where
  "lines_fit file maxChunkSize =
     list_all (\<lambda>line. length line + 1 \<le> maxChunkSize) (split_on 10 (CodeFile.content file))"

text \<open>Three files of 20,000 characters: one line; four lines; three lines.\<close>

definition one_line_file :: CodeFile where
  "one_line_file =
     \<lparr>path = js ''a.txt'', CodeFile.content = replicate 20000 97,
      CodeFile.language = js ''text'', lastModified = 0\<rparr>"

definition four_line_file :: CodeFile where
  "four_line_file =
     \<lparr>path = js ''b.txt'',
      CodeFile.content = replicate 4999 97 @ [10] @ replicate 4999 97 @ [10]
                           @ replicate 4999 97 @ [10] @ replicate 4999 97 @ [10],
      CodeFile.language = js ''text'', lastModified = 0\<rparr>"

definition three_line_file :: CodeFile where
  "three_line_file =
     \<lparr>path = js ''c.txt'',
      CodeFile.content = replicate 7999 97 @ [10] @ replicate 7999 97 @ [10] @ replicate 4000 97,
      CodeFile.language = js ''text'', lastModified = 0\<rparr>"

text \<open>
  The key of the \<open>UNIQUE(project_id, file_path)\<close> constraint, the rows stored under a
  key, and the row that an upsert of \<open>e\<close> leaves where \<open>r\<close> was.
\<close>

definition row_key :: "CodeEmbedding \<Rightarrow> int \<times> jsstring" where
  "row_key r = (CodeEmbedding.projectId r, CodeEmbedding.filePath r)"

definition rows_for :: "int \<Rightarrow> jsstring \<Rightarrow> database \<Rightarrow> CodeEmbedding list" where
  "rows_for p f d = filter (\<lambda>r. row_key r = (p, f)) (embeddings d)"

definition overwrite :: "CodeEmbedding \<Rightarrow> CodeEmbedding \<Rightarrow> CodeEmbedding" where
  "overwrite r e =
     e\<lparr>CodeEmbedding.repositoryUrl := CodeEmbedding.repositoryUrl r,
       CodeEmbedding.createdAt := CodeEmbedding.createdAt r\<rparr>"

text \<open>The upsert statement that \<open>saveEmbeddings\<close> sends for a row, and a batch of upserts.\<close>

definition upsert_stmt :: "database \<Rightarrow> CodeEmbedding \<Rightarrow> stmt" where
  "upsert_stmt d e = UpsertEmbedding (reported_data_type (embedding_type d) = js ''vector'') e"

text \<open>A client with no open transaction, as \<open>pool.connect()\<close> is taken to return it.\<close>

definition idle :: "database \<Rightarrow> client" where
  "idle d = \<lparr>store = d, txn = None\<rparr>"

definition upsert_all :: "CodeEmbedding list \<Rightarrow> CodeEmbedding list \<Rightarrow> CodeEmbedding list" where
  "upsert_all rows t = foldl (\<lambda>t e. upsert_embedding e t) t rows"

text \<open>Rows in the order of \<open>ORDER BY updated_at DESC\<close>.\<close>

definition newest_first :: "CodeEmbedding list \<Rightarrow> bool" where
  "newest_first rows = sorted_wrt (\<lambda>a b. updatedAt b \<le> updatedAt a) rows"




subsection \<open>A small installation\<close>

text \<open>
  A provider with one project that holds the file \<open>a.py\<close>, an embedding model that
  answers every text, and a storage server without faults.
\<close>

definition demo_env :: env where
  "demo_env =
     \<lparr>project_details =
        (\<lambda>p. Inr \<lparr>ProjectDetails.name = js ''demo'', ProjectDetails.description = None,
                   ProjectDetails.web_url = js ''https://gitlab.example/demo'',
                   default_branch = js ''main''\<rparr>),
      repository_tree = (\<lambda>p r. Inr [\<lparr>item_type = js ''blob'', item_path = js ''a.py''\<rparr>]),
      raw_file = (\<lambda>p f r. Inr (js ''x = 1'')),
      embed_api = (\<lambda>t. Inr [1]),
      llm_analysis = (\<lambda>q rs. js ''ok''),
      query_fails = (\<lambda>q. False),
      cosine_distance = (\<lambda>a b. 0),
      toLowerCase = (\<lambda>s. s),
      now = 5\<rparr>"

text \<open>The same installation with a server that rejects every row for \<open>b.bin\<close>.\<close>

definition faulty_env :: env where
  "faulty_env =
     demo_env\<lparr>query_fails :=
       (\<lambda>q. case q of UpsertEmbedding isVector e \<Rightarrow> CodeEmbedding.filePath e = js ''b.bin''
                     | _ \<Rightarrow> False)\<rparr>"

definition empty_db :: database where
  "empty_db = \<lparr>embedding_type = Jsonb, projects = [], embeddings = [], batches = []\<rparr>"

definition demo_row :: "jsstring \<Rightarrow> jsstring \<Rightarrow> date \<Rightarrow> CodeEmbedding" where
  "demo_row f c t =
     \<lparr>CodeEmbedding.projectId = 1, CodeEmbedding.repositoryUrl = js ''https://gitlab.example/demo'',
      CodeEmbedding.filePath = f, CodeEmbedding.content = c, embedding = [1],
      CodeEmbedding.language = js ''python'', CodeEmbedding.commitId = js ''c1'',
      CodeEmbedding.branch = js ''main'', CodeEmbedding.createdAt = t, updatedAt = t\<rparr>"

definition row_a :: CodeEmbedding where
  "row_a = demo_row (js ''a.py'') (js ''x = 1'') 1"

definition row_b :: CodeEmbedding where
  "row_b = demo_row (js ''a.py'') (js ''x = 2'') 2"

definition row_bin :: CodeEmbedding where
  "row_bin = demo_row (js ''b.bin'') (js ''zz'') 3"

definition row_c :: CodeEmbedding where
  "row_c = demo_row (js ''c.py'') (js ''y = 3'') 3"

definition demo_metadata :: ProjectMetadata where
  "demo_metadata =
     \<lparr>ProjectMetadata.projectId = 1, ProjectMetadata.name = js ''demo'',
      ProjectMetadata.description = [], url = js ''https://gitlab.example/demo'',
      defaultBranch = js ''main'', lastProcessedCommit = js ''c1'', lastProcessedAt = 1\<rparr>"

definition demo_world :: world where
  "demo_world = \<lparr>db = empty_db\<lparr>projects := [demo_metadata]\<rparr>, trace = []\<rparr>"

definition demo_project :: GitLabProject where
  "demo_project = \<lparr>id' = 1, GitLabProject.web_url = js ''https://gitlab.example/demo''\<rparr>"

definition demo_push :: "jsstring \<Rightarrow> GitLabPushEvent" where
  "demo_push commit =
     \<lparr>after = commit, ref = js ''refs/heads/main'', project_id = 1,
      GitLabPushEvent.project = demo_project\<rparr>"




definition demo_request :: SearchRequest where
  "demo_request = \<lparr>query' = Some (js ''parser''), SearchRequest.projectId = None,
                    limit = Some 5, analyze = False\<rparr>"

definition stocked_world :: world where
  "stocked_world = \<lparr>db = empty_db\<lparr>embeddings := [row_a]\<rparr>, trace = []\<rparr>"


section \<open>Project identifiers\<close>

lemma unat_hex_char: "n < 16 \<Longrightarrow> unat (hex_char n) = (if n < 10 then 48 + n else 87 + n)"
  unfolding hex_char_def by (simp add: unat_of_nat del: of_nat_add)

lemma unat_15: "unat (15 :: 128 word) = 15"
  by simp

lemma nibble_less: "unat ((w::128 word) AND 15) < 16"
proof -
  have "w AND 15 \<le> 15" by (rule word_and_le1)
  then have "unat (w AND 15) \<le> unat (15 :: 128 word)" unfolding word_le_nat_alt .
  then show ?thesis unfolding unat_15 by arith
qed

lemma hex_digit_value_hex_char: "n < 16 \<Longrightarrow> hex_digit_value (hex_char n) = Some n"
  by (simp add: hex_digit_value_def unat_hex_char Let_def)

lemma lower_hex_value: "lower_hex c \<Longrightarrow> \<exists>d. hex_digit_value c = Some d"
  by (auto simp: lower_hex_def hex_digit_value_hex_char)

lemma lower_hex_code: "lower_hex c \<Longrightarrow> unat c \<in> {48..57} \<union> {97..102}"
  by (auto simp: lower_hex_def unat_hex_char split: if_splits)

lemma lower_hex_plain:
  assumes "lower_hex c"
  shows "\<not> is_white_space c" "c \<noteq> 45" "c \<noteq> 43" "c \<noteq> 120" "c \<noteq> 88"
  using lower_hex_code [OF assms] by (auto simp: is_white_space_def)

lemma lower_hex_digest: "c \<in> set (hex_digest w) \<Longrightarrow> lower_hex c"
  using nibble_less by (auto simp: hex_digest_def lower_hex_def)

text \<open>On a non-empty run of digits \<open>parseInt\<close> reads the whole string.\<close>

lemma parseInt16_lower_hex:
  assumes "s \<noteq> []" "\<forall>c\<in>set s. lower_hex c"
  shows "parseInt16 s = Some (int (parse_digits16 0 s))"
proof -
  obtain c cs where s: "s = c # cs" using assms(1) by (cases s) auto
  have c: "lower_hex c" using assms(2) s by simp
  obtain d where d: "hex_digit_value c = Some d" using lower_hex_value [OF c] by blast
  note plain = lower_hex_plain [OF c]
  show ?thesis
  proof (cases cs)
    case Nil
    then show ?thesis using s d plain by (simp add: parseInt16_def)
  next
    case (Cons b r)
    then have "lower_hex b" using assms(2) s by simp
    then have "b \<noteq> 120" "b \<noteq> 88" using lower_hex_plain by blast+
    then show ?thesis using s d plain Cons by (simp add: parseInt16_def)
  qed
qed

lemma parse_digits16_bound:
  "\<forall>c\<in>set s. lower_hex c \<Longrightarrow> parse_digits16 a s < (a + 1) * 16 ^ length s"
proof (induction s arbitrary: a)
  case Nil
  then show ?case by simp
next
  case (Cons c s)
  then obtain n where n: "n < 16" "c = hex_char n" by (auto simp: lower_hex_def)
  have "parse_digits16 (16 * a + n) s < (16 * a + n + 1) * 16 ^ length s"
    using Cons by simp
  also have "\<dots> \<le> (16 * (a + 1)) * 16 ^ length s"
    using n(1) by (intro mult_right_mono) auto
  finally show ?case using n by (simp add: hex_digit_value_hex_char algebra_simps)
qed

text \<open>
  The number parsed from the first eight digits is below \<open>2^32\<close>, so the double that
  holds it is exact and the remainder is taken on integers.
\<close>

lemma numeric_id_exact:
  "\<exists>n. parseInt16 (take 8 (hex_digest w)) = Some n \<and> 0 \<le> n \<and> n < 2 ^ 32"
proof -
  let ?s = "take 8 (hex_digest w)"
  have len: "length ?s = 8" by (simp add: hex_digest_def)
  then have ne: "?s \<noteq> []" by auto
  have h: "\<forall>c\<in>set ?s. lower_hex c" using lower_hex_digest by (meson in_set_takeD)
  then have p: "parseInt16 ?s = Some (int (parse_digits16 0 ?s))"
    using parseInt16_lower_hex ne by blast
  have "parse_digits16 0 ?s < (0 + 1) * 16 ^ length ?s" using parse_digits16_bound [OF h] .
  then have "parse_digits16 0 ?s < 2 ^ 32" unfolding len by simp
  then have "int (parse_digits16 0 ?s) < 2 ^ 32"
    by (metis of_nat_less_iff of_nat_numeral of_nat_power)
  then show ?thesis using p by simp
qed

text \<open>
  C10. \<open>generateProjectIdFromPath\<close> is a function of the path (and of the digest
  function of the runtime): for every path it returns a number, never \<open>NaN\<close>, and that
  number is a non-negative integer strictly below 2147483647, so it fits a 32-bit signed
  integer column.
\<close>

theorem project_id_range:
  "\<exists>n. generateProjectIdFromPath md5 p = Some n \<and> 0 \<le> n \<and> n < 2147483647"
proof -
  let ?s = "take 8 (hex_digest (md5 p))"
  have len: "length (hex_digest (md5 p)) = 32" by (simp add: hex_digest_def)
  then have ne: "?s \<noteq> []" by auto
  have "\<forall>c\<in>set ?s. lower_hex c" using lower_hex_digest by (meson in_set_takeD)
  then have p: "parseInt16 ?s = Some (int (parse_digits16 0 ?s))"
    using parseInt16_lower_hex ne by blast
  show ?thesis
    unfolding generateProjectIdFromPath_def Let_def p by (simp add: js_rem_def sgn_if)
qed

theorem project_id_range_witness:
  "\<exists>n. generateProjectIdFromPath (\<lambda>s. word_of_nat (length s) - 1) (js ''group/repo'') = Some n
        \<and> 0 \<le> n \<and> n < 2147483647"
  using project_id_range [of "\<lambda>s. word_of_nat (length s) - 1" "js ''group/repo''"] by simp

text \<open>A digest whose first eight digits are all \<open>f\<close>: \<open>4294967295 % 2147483647 = 1\<close>.\<close>

lemma project_id_example:
  "generateProjectIdFromPath (\<lambda>s. 0xfffffffffffffffffffffffffffffff0) (js ''group/repo'') = Some 1"
  by (simp add: generateProjectIdFromPath_def hex_digest_def hex_char_def parseInt16_def
      is_white_space_def hex_digit_value_def js_rem_def upt_rec drop_bit_eq_div)

section \<open>Content filter\<close>

text \<open>
  The claim as stated fails on the empty content: it has no null byte, no non-printable
  character and length zero, and the guard \<open>!file.content\<close> skips it.
\<close>

theorem eligible_counterexample:
  "0 \<notin> set ([] :: jsstring) \<and> 10 * length (filter non_printable []) \<le> length ([] :: jsstring)
   \<and> length ([] :: jsstring) \<le> 100000 \<and> \<not> eligible_content []"
  by (simp add: eligible_content_def skipped_content_def)

text \<open>
  C7 (amended). Every non-empty content that contains no null byte, whose non-printable
  characters (codes below 32 other than 9, 10 and 13) are at most 10% of its length, and
  whose length is at most 100,000 is eligible for embedding.
\<close>

theorem eligible_nonempty:
  assumes "c \<noteq> []" and "0 \<notin> set c"
    and "10 * length (filter non_printable c) \<le> length c" and "length c \<le> 100000"
  shows "eligible_content c"
  using assms unfolding non_printable_def [abs_def]
  by (simp add: eligible_content_def skipped_content_def isBinaryContent_def Let_def)

theorem eligible_nonempty_witness:
  "js ''x = 1'' \<noteq> [] \<and> 0 \<notin> set (js ''x = 1'')
   \<and> 10 * length (filter non_printable (js ''x = 1'')) \<le> length (js ''x = 1'')
   \<and> length (js ''x = 1'') \<le> 100000 \<and> eligible_content (js ''x = 1'')"
proof -
  have a: "js ''x = 1'' \<noteq> []" by (simp add: js_def)
  have b: "0 \<notin> set (js ''x = 1'')" by (simp add: js_def)
  have c: "10 * length (filter non_printable (js ''x = 1'')) \<le> length (js ''x = 1'')"
    by (simp add: js_def non_printable_def)
  have d: "length (js ''x = 1'') \<le> 100000" by (simp add: js_def)
  show ?thesis using a b c d eligible_nonempty [OF a b c d] by blast
qed

section \<open>Chunking\<close>

lemma split_on_not_Nil: "split_on sep s \<noteq> []"
  by (induction s) (auto split: list.splits)

lemma split_on_join: "concat (map (\<lambda>l. l @ [sep]) (split_on sep s)) = s @ [sep]"
  by (induction s) (auto split: list.splits simp: split_on_not_Nil)

lemma split_on_absent: "sep \<notin> set xs \<Longrightarrow> split_on sep xs = [xs]"
  by (induction xs) auto

lemma split_on_append: "sep \<notin> set xs \<Longrightarrow> split_on sep (xs @ sep # ys) = xs # split_on sep ys"
  by (induction xs) (auto split: list.splits simp: split_on_not_Nil)

lemma content_make_chunk: "CodeFile.content (make_chunk f i c) = c"
  by (simp add: make_chunk_def)

lemma path_make_chunk: "path (make_chunk f i c) = chunk_path f i"
  by (simp add: make_chunk_def)

lemma chunk_lines_concat:
  "concat (map CodeFile.content (chunk_lines f m ls chunks cur i)) =
   concat (map CodeFile.content chunks) @ cur @ concat (map (\<lambda>l. l @ [10]) ls)"
  by (induction ls arbitrary: chunks cur i) (simp_all add: content_make_chunk)

lemma chunk_lines_paths:
  "map path chunks = map (chunk_path f) [0..<i] \<Longrightarrow>
   map path (chunk_lines f m ls chunks cur i) =
     map (chunk_path f) [0..<length (chunk_lines f m ls chunks cur i)]"
proof (induction ls arbitrary: chunks cur i)
  case Nil
  have "length chunks = i" using Nil by (metis length_map length_upt diff_zero)
  then show ?case using Nil by (simp add: path_make_chunk)
next
  case (Cons l ls)
  have len: "length chunks = i" using Cons.prems by (metis length_map length_upt diff_zero)
  show ?case
  proof (cases "length cur + length l + 1 > m")
    case True
    have "map path (chunks @ [make_chunk f i cur]) = map (chunk_path f) [0..<i + 1]"
      using Cons.prems by (simp add: path_make_chunk)
    from Cons.IH [OF this] True show ?thesis by simp
  next
    case False
    from Cons.IH [OF Cons.prems] False show ?thesis by simp
  qed
qed

lemma chunk_lines_sizes:
  "\<forall>l\<in>set ls. length l + 1 \<le> m \<Longrightarrow> length cur \<le> m \<Longrightarrow>
   \<forall>c\<in>set chunks. length (CodeFile.content c) \<le> m \<Longrightarrow>
   \<forall>c\<in>set (chunk_lines f m ls chunks cur i). length (CodeFile.content c) \<le> m"
proof (induction ls arbitrary: chunks cur i)
  case Nil
  then show ?case by (auto simp: content_make_chunk)
next
  case (Cons l ls)
  show ?case
  proof (cases "length cur + length l + 1 > m")
    case True
    have "\<forall>c\<in>set (chunk_lines f m ls (chunks @ [make_chunk f i cur]) (l @ [10]) (i + 1)).
            length (CodeFile.content c) \<le> m"
      using Cons.prems by (intro Cons.IH) (auto simp: content_make_chunk)
    then show ?thesis using True by simp
  next
    case False
    have "\<forall>c\<in>set (chunk_lines f m ls chunks (cur @ l @ [10]) i). length (CodeFile.content c) \<le> m"
      using Cons.prems False by (intro Cons.IH) auto
    then show ?thesis using False by simp
  qed
qed

lemma length_concat_le:
  "\<forall>x\<in>set xs. length x \<le> m \<Longrightarrow> length (concat xs) \<le> m * length xs"
  by (induction xs) auto

lemma read_nat_append: "read_nat a (xs @ ys) = read_nat (read_nat a xs) ys"
  by (induction xs arbitrary: a) auto

lemma unat_digit: "d < 10 \<Longrightarrow> unat (of_nat (48 + d) :: jschar) = 48 + d"
  by (simp add: unat_of_nat del: of_nat_add)

lemma read_show_nat: "read_nat 0 (show_nat n) = n"
proof (induction n rule: show_nat.induct)
  case (1 n)
  show ?case
  proof (cases "n < 10")
    case True
    then show ?thesis by (subst show_nat.simps) (simp add: unat_digit del: of_nat_add)
  next
    case False
    have "n mod 10 < 10" by simp
    then have u: "unat (of_nat (48 + n mod 10) :: jschar) = 48 + n mod 10" by (rule unat_digit)
    from False 1 have "read_nat 0 (show_nat (n div 10)) = n div 10" by simp
    then show ?thesis using False u
      by (subst show_nat.simps) (simp add: read_nat_append del: of_nat_add)
  qed
qed

lemma show_nat_inj: "show_nat n = show_nat m \<Longrightarrow> n = m"
  by (metis read_show_nat)

lemma chunk_path_inj: "inj (chunk_path f)"
  by (auto simp: inj_def chunk_path_def dest: show_nat_inj)

lemma chunk_paths_distinct: "distinct (map (chunk_path f) [0..<n])"
  by (simp add: distinct_map chunk_path_inj inj_on_def injD [OF chunk_path_inj])

text \<open>
  C6 (amended). For every file whose content is 20,000 characters and whose every line
  is at most 7,999 characters, \<open>chunkCodeFile\<close> with \<open>maxChunkSize = 8000\<close> yields at
  least three chunks; each chunk's content is at most 8000 characters; the chunk paths
  are the original path followed by \<open>#chunk0\<close>, \<open>#chunk1\<close>, ... in output order and so
  are distinct; and the chunk contents concatenated in output order are the original
  content followed by one line feed, so the lines keep their order.
\<close>

theorem chunk_20000:
  assumes "length (CodeFile.content file) = 20000" and "lines_fit file 8000"
  shows "3 \<le> length (chunkCodeFile file 8000)
       \<and> list_all (\<lambda>c. length (CodeFile.content c) \<le> 8000) (chunkCodeFile file 8000)
       \<and> map path (chunkCodeFile file 8000)
           = map (chunk_path file) [0..<length (chunkCodeFile file 8000)]
       \<and> distinct (map path (chunkCodeFile file 8000))
       \<and> concat (map CodeFile.content (chunkCodeFile file 8000)) = CodeFile.content file @ [10]"
proof -
  let ?ls = "split_on 10 (CodeFile.content file)"
  let ?cs = "chunk_lines file 8000 ?ls [] [] 0"
  have cs: "chunkCodeFile file 8000 = ?cs"
    using assms(1) by (auto simp: chunkCodeFile_def)
  have fit: "\<forall>l\<in>set ?ls. length l + 1 \<le> 8000"
    using assms(2) by (simp add: lines_fit_def list_all_iff)
  have sizes: "\<forall>c\<in>set ?cs. length (CodeFile.content c) \<le> 8000"
    by (rule chunk_lines_sizes [OF fit]) simp_all
  have cat: "concat (map CodeFile.content ?cs) = CodeFile.content file @ [10]"
    by (simp add: chunk_lines_concat split_on_join)
  have paths: "map path ?cs = map (chunk_path file) [0..<length ?cs]"
    by (rule chunk_lines_paths) simp
  have "length (concat (map CodeFile.content ?cs)) \<le> 8000 * length (map CodeFile.content ?cs)"
    by (rule length_concat_le) (use sizes in auto)
  then have "20001 \<le> 8000 * length ?cs"
    unfolding cat using assms(1) by simp
  then have three: "3 \<le> length ?cs" by arith
  show ?thesis
    unfolding cs using three sizes cat paths
    by (simp add: list_all_iff chunk_paths_distinct)
qed

lemma split_three:
  "split_on 10 (CodeFile.content three_line_file)
     = [replicate 7999 97, replicate 7999 97, replicate 4000 97]"
  by (simp add: three_line_file_def split_on_append split_on_absent)

theorem chunk_20000_witness:
  "length (CodeFile.content three_line_file) = 20000 \<and> lines_fit three_line_file 8000
   \<and> 3 \<le> length (chunkCodeFile three_line_file 8000)
   \<and> list_all (\<lambda>c. length (CodeFile.content c) \<le> 8000) (chunkCodeFile three_line_file 8000)
   \<and> map path (chunkCodeFile three_line_file 8000)
       = map (chunk_path three_line_file) [0..<length (chunkCodeFile three_line_file 8000)]
   \<and> distinct (map path (chunkCodeFile three_line_file 8000))
   \<and> concat (map CodeFile.content (chunkCodeFile three_line_file 8000))
       = CodeFile.content three_line_file @ [10]"
proof -
  have a: "length (CodeFile.content three_line_file) = 20000"
    by (simp add: three_line_file_def)
  have b: "lines_fit three_line_file 8000"
    unfolding lines_fit_def split_three by simp
  show ?thesis using a b chunk_20000 [OF a b] by blast
qed

lemma split_one: "split_on 10 (CodeFile.content one_line_file) = [replicate 20000 97]"
  by (simp add: one_line_file_def split_on_absent)

lemma split_four: "split_on 10 (CodeFile.content four_line_file)
   = [replicate 4999 97, replicate 4999 97, replicate 4999 97, replicate 4999 97, []]"
  by (simp add: four_line_file_def split_on_append)

text \<open>
  The claim as stated fails twice. A file of one line of 20,000 characters gives two
  chunks, the second of 20,001 characters. A file of four lines of 4,999 characters,
  each ended by a line feed, gives four chunks although every line fits.
\<close>

theorem chunk_20000_counterexample:
  "length (CodeFile.content one_line_file) = 20000
   \<and> length (chunkCodeFile one_line_file 8000) = 2
   \<and> length (CodeFile.content (chunkCodeFile one_line_file 8000 ! 1)) = 20001
   \<and> length (CodeFile.content four_line_file) = 20000
   \<and> lines_fit four_line_file 8000
   \<and> length (chunkCodeFile four_line_file 8000) = 4"
proof -
  have 1: "length (CodeFile.content one_line_file) = 20000" by (simp add: one_line_file_def)
  have 2: "chunkCodeFile one_line_file 8000 =
     [make_chunk one_line_file 0 [], make_chunk one_line_file 1 (replicate 20000 97 @ [10])]"
    unfolding chunkCodeFile_def split_one using 1 by (simp add: one_line_file_def)
  have 3: "length (CodeFile.content four_line_file) = 20000" by (simp add: four_line_file_def)
  have 4: "lines_fit four_line_file 8000" unfolding lines_fit_def split_four by simp
  have 5: "length (chunkCodeFile four_line_file 8000) = 4"
    unfolding chunkCodeFile_def split_four using 3 by (simp add: four_line_file_def)
  show ?thesis using 1 2 3 4 5 by (simp add: content_make_chunk)
qed


section \<open>Clients and the pool\<close>

text \<open>
  The test \<open>data_type === 'vector'\<close> is false for both column types, so every method
  takes the branch without the \<open>::vector\<close> cast and the search takes the recency query.
\<close>

lemma not_vector [simp]: "(reported_data_type t = js ''vector'') = False"
  by (cases t) (simp_all add: reported_data_type_def js_def)

lemma select_isVector_result:
  "select_isVector E c =
     (if query_fails E SelectEmbeddingColumnType then (Inl StorageError, c) else (Inr False, c))"
  by (simp add: select_isVector_def select_def)

lemma view_idle [simp]: "view (idle d) = d"
  by (simp add: view_def idle_def)

lemma store_idle [simp]: "store (idle d) = d"
  by (simp add: idle_def)

lemma txn_idle [simp]: "txn (idle d) = None"
  by (simp add: idle_def)

text \<open>
  Outside a transaction a statement other than \<open>BEGIN\<close> opens none, and a query that
  only reads leaves the client as it is.
\<close>

lemma query_keeps_idle: "q \<noteq> Begin \<Longrightarrow> txn c = None \<Longrightarrow> txn (snd (query E q c)) = None"
  by (cases q) (simp_all add: query_def write_tables_def)

lemma select_keeps_client: "snd (select E q rows c) = c"
  by (simp add: select_def)

text \<open>
  The bodies of the single-statement methods and of the search release the client with
  no open transaction.
\<close>

lemma saveEmbedding_releases_idle:
  "txn (snd (tryCatch
               (bindS (select_isVector E) (\<lambda>isVector.
                  if isVector then query E (UpsertEmbedding True e)
                  else query E (UpsertEmbedding False e)))
               (\<lambda>error. throwS error) (idle d))) = None"
  by (simp add: tryCatch_def bindS_def select_isVector_def select_def query_def throwS_def
      write_tables_def)

lemma saveBatch_releases_idle:
  "txn (snd (tryCatch (query E (InsertBatch batch)) (\<lambda>error. throwS error) (idle d))) = None"
  by (simp add: tryCatch_def query_def throwS_def write_tables_def)

lemma updateProjectMetadata_releases_idle:
  "txn (snd (tryCatch (query E (UpsertProject m)) (\<lambda>error. throwS error) (idle d))) = None"
  by (simp add: tryCatch_def query_def throwS_def write_tables_def)

lemma getProjectMetadata_releases_idle:
  "snd (tryCatch (select E (SelectProject p) rows) (\<lambda>error. throwS error) (idle d)) = idle d"
  by (simp add: tryCatch_def select_def throwS_def)

lemma search_body_releases_idle: "snd (search_body E scope v n (idle d)) = idle d"
  by (simp add: search_body_def tryCatch_def bindS_def select_isVector_def select_def
      limited_select_def throwS_def Let_def)

lemma with_client_idle:
  "with_client E m d =
     (if query_fails E Connect then (Inl StorageError, d)
      else (fst (m (idle d)), store (snd (m (idle d)))))"
  by (simp add: with_client_def idle_def split: prod.splits)

section \<open>Upsert of one embedding\<close>

lemma upsert_keys: "set (map row_key (upsert_embedding e t)) = insert (row_key e) (set (map row_key t))"
  by (induction t) (auto simp: row_key_def)

lemma upsert_distinct: "distinct (map row_key t) \<Longrightarrow> distinct (map row_key (upsert_embedding e t))"
proof (induction t)
  case Nil
  then show ?case by simp
next
  case (Cons r t)
  show ?case
  proof (cases "row_key r = row_key e")
    case True
    then show ?thesis using Cons.prems by (auto simp: row_key_def)
  next
    case False
    have "row_key r \<notin> set (map row_key (upsert_embedding e t))"
      using False Cons.prems unfolding upsert_keys by auto
    then show ?thesis using False Cons by (auto simp: row_key_def)
  qed
qed

lemma upsert_absent:
  "row_key e \<notin> set (map row_key t) \<Longrightarrow>
   filter (\<lambda>r. row_key r = row_key e) (upsert_embedding e t) = [e]"
  by (induction t) (auto simp: row_key_def)

lemma filter_absent: "k \<notin> set (map row_key t) \<Longrightarrow> filter (\<lambda>r. row_key r = k) t = []"
  by (induction t) auto

lemma upsert_present:
  "distinct (map row_key t) \<Longrightarrow> filter (\<lambda>r. row_key r = row_key e) t = [r0] \<Longrightarrow>
   filter (\<lambda>r. row_key r = row_key e) (upsert_embedding e t) = [overwrite r0 e]"
proof (induction t)
  case Nil
  then show ?case by simp
next
  case (Cons r t)
  show ?case
  proof (cases "row_key r = row_key e")
    case True
    then have "row_key e \<notin> set (map row_key t)" using Cons.prems(1) by auto
    then have none: "filter (\<lambda>r. row_key r = row_key e) t = []" by (rule filter_absent)
    then have "r0 = r" using Cons.prems(2) True by simp
    then show ?thesis using True none by (auto simp: row_key_def overwrite_def)
  next
    case False
    then show ?thesis using Cons by (auto simp: row_key_def)
  qed
qed

lemma filter_key_cases:
  "distinct (map row_key t) \<Longrightarrow>
   filter (\<lambda>r. row_key r = k) t = [] \<or> (\<exists>r0. filter (\<lambda>r. row_key r = k) t = [r0])"
proof (induction t)
  case Nil
  then show ?case by simp
next
  case (Cons r t)
  show ?case
  proof (cases "row_key r = k")
    case True
    then have "k \<notin> set (map row_key t)" using Cons.prems by auto
    then show ?thesis using True by (simp add: filter_absent)
  next
    case False
    then show ?thesis using Cons by auto
  qed
qed

text \<open>What \<open>saveEmbedding\<close> returns and stores.\<close>

lemma saveEmbedding_result:
  "saveEmbedding E e d =
     (if query_fails E Connect \<or> query_fails E SelectEmbeddingColumnType
         \<or> query_fails E (upsert_stmt d e)
      then (Inl StorageError, d)
      else (Inr (), d\<lparr>embeddings := upsert_embedding e (embeddings d)\<rparr>))"
  by (simp add: saveEmbedding_def with_client_def tryCatch_def bindS_def select_isVector_def
      select_def query_def throwS_def view_def write_tables_def upsert_stmt_def)

lemma saveEmbedding_ok:
  "saveEmbedding E e d = (Inr (), d') \<Longrightarrow> d' = d\<lparr>embeddings := upsert_embedding e (embeddings d)\<rparr>"
  by (simp add: saveEmbedding_result split: if_splits)

text \<open>
  C5 (amended). For rows \<open>A\<close> and \<open>B\<close> with the same key \<open>(p, f)\<close>, after
  \<open>saveEmbedding(A)\<close> and then \<open>saveEmbedding(B)\<close> have both succeeded on a table that
  satisfies its uniqueness constraint, exactly one row is stored for \<open>(p, f)\<close>. Its
  content, embedding, language, commit, branch and update time are those of \<open>B\<close>; its
  repository URL and creation time are those the row had after the first write, which
  are those of \<open>A\<close> when the key was new.
\<close>

theorem save_twice:
  assumes uniq: "distinct (map row_key (embeddings d))"
    and keyA: "row_key A = (p, f)" and keyB: "row_key B = (p, f)"
    and A: "saveEmbedding E A d = (Inr (), d1)"
    and B: "saveEmbedding E B d1 = (Inr (), d2)"
  shows "\<exists>r1. rows_for p f d1 = [r1] \<and> rows_for p f d2 = [overwrite r1 B]
              \<and> (rows_for p f d = [] \<longrightarrow> r1 = A)"
proof -
  have d1: "embeddings d1 = upsert_embedding A (embeddings d)"
    using saveEmbedding_ok [OF A] by simp
  have d2: "embeddings d2 = upsert_embedding B (embeddings d1)"
    using saveEmbedding_ok [OF B] by simp
  have uniq1: "distinct (map row_key (embeddings d1))"
    unfolding d1 using uniq by (rule upsert_distinct)
  have first: "\<exists>r1. rows_for p f d1 = [r1] \<and> (rows_for p f d = [] \<longrightarrow> r1 = A)"
  proof -
    from filter_key_cases [OF uniq, of "row_key A"]
    show ?thesis
    proof
      assume none: "filter (\<lambda>r. row_key r = row_key A) (embeddings d) = []"
      then have "row_key A \<notin> set (map row_key (embeddings d))"
        by (auto simp: filter_empty_conv)
      then show ?thesis using upsert_absent [of A "embeddings d"] keyA
        by (simp add: rows_for_def d1)
    next
      assume "\<exists>r0. filter (\<lambda>r. row_key r = row_key A) (embeddings d) = [r0]"
      then obtain r0 where r0: "filter (\<lambda>r. row_key r = row_key A) (embeddings d) = [r0]" by blast
      then show ?thesis using upsert_present [OF uniq r0] keyA
        by (simp add: rows_for_def d1)
    qed
  qed
  then obtain r1 where r1: "rows_for p f d1 = [r1]" "rows_for p f d = [] \<longrightarrow> r1 = A" by blast
  have "filter (\<lambda>r. row_key r = row_key B) (embeddings d1) = [r1]"
    using r1(1) keyB by (simp add: rows_for_def)
  from upsert_present [OF uniq1 this]
  have "rows_for p f d2 = [overwrite r1 B]" using keyB by (simp add: rows_for_def d2)
  then show ?thesis using r1 by blast
qed


theorem save_twice_witness:
  "distinct (map row_key (embeddings empty_db)) \<and> row_key row_a = (1, js ''a.py'')
   \<and> row_key row_b = (1, js ''a.py'')
   \<and> saveEmbedding demo_env row_a empty_db = (Inr (), empty_db\<lparr>embeddings := [row_a]\<rparr>)
   \<and> saveEmbedding demo_env row_b (empty_db\<lparr>embeddings := [row_a]\<rparr>)
        = (Inr (), empty_db\<lparr>embeddings := [overwrite row_a row_b]\<rparr>)
   \<and> (\<exists>r1. rows_for 1 (js ''a.py'') (empty_db\<lparr>embeddings := [row_a]\<rparr>) = [r1]
           \<and> rows_for 1 (js ''a.py'') (empty_db\<lparr>embeddings := [overwrite row_a row_b]\<rparr>)
               = [overwrite r1 row_b]
           \<and> (rows_for 1 (js ''a.py'') empty_db = [] \<longrightarrow> r1 = row_a))"
proof -
  have u: "distinct (map row_key (embeddings empty_db))" by (simp add: empty_db_def)
  have ka: "row_key row_a = (1, js ''a.py'')" by (simp add: row_key_def row_a_def demo_row_def)
  have kb: "row_key row_b = (1, js ''a.py'')" by (simp add: row_key_def row_b_def demo_row_def)
  have a: "saveEmbedding demo_env row_a empty_db = (Inr (), empty_db\<lparr>embeddings := [row_a]\<rparr>)"
    by (simp add: saveEmbedding_result demo_env_def empty_db_def)
  have b: "saveEmbedding demo_env row_b (empty_db\<lparr>embeddings := [row_a]\<rparr>)
        = (Inr (), empty_db\<lparr>embeddings := [overwrite row_a row_b]\<rparr>)"
    by (simp add: saveEmbedding_result demo_env_def empty_db_def row_a_def row_b_def demo_row_def
        overwrite_def)
  show ?thesis using u ka kb a b save_twice [OF u ka kb a b] by blast
qed

text \<open>
  The claim as stated fails: the row read back after writing \<open>A\<close> and then \<open>B\<close> keeps
  the creation time of \<open>A\<close>, so it is not \<open>B\<close>.
\<close>

theorem save_twice_counterexample:
  "row_key row_a = (1, js ''a.py'') \<and> row_key row_b = (1, js ''a.py'')
   \<and> saveEmbedding demo_env row_a empty_db = (Inr (), empty_db\<lparr>embeddings := [row_a]\<rparr>)
   \<and> saveEmbedding demo_env row_b (empty_db\<lparr>embeddings := [row_a]\<rparr>)
        = (Inr (), empty_db\<lparr>embeddings := [row_b\<lparr>CodeEmbedding.createdAt := 1\<rparr>]\<rparr>)
   \<and> rows_for 1 (js ''a.py'') (empty_db\<lparr>embeddings := [row_b\<lparr>CodeEmbedding.createdAt := 1\<rparr>]\<rparr>)
        = [row_b\<lparr>CodeEmbedding.createdAt := 1\<rparr>]
   \<and> row_b\<lparr>CodeEmbedding.createdAt := 1\<rparr> \<noteq> row_b"
  by (simp add: saveEmbedding_result demo_env_def empty_db_def row_a_def row_b_def demo_row_def
        rows_for_def row_key_def)


section \<open>Upsert of a batch in one transaction\<close>

lemma forS_upserts:
  "forS rows (\<lambda>e. query E (UpsertEmbedding b e)) \<lparr>store = d, txn = Some t\<rparr>
   = (if list_ex (\<lambda>e. query_fails E (UpsertEmbedding b e)) rows then Inl StorageError else Inr (),
      \<lparr>store = d,
       txn = Some (t\<lparr>embeddings :=
               upsert_all (takeWhile (\<lambda>e. \<not> query_fails E (UpsertEmbedding b e)) rows) (embeddings t)\<rparr>)\<rparr>)"
proof (induction rows arbitrary: t)
  case Nil
  then show ?case by (simp add: returnS_def upsert_all_def)
next
  case (Cons e rows)
  show ?case
  proof (cases "query_fails E (UpsertEmbedding b e)")
    case True
    then show ?thesis by (simp add: bindS_def query_def upsert_all_def)
  next
    case False
    then show ?thesis
      using Cons [of "t\<lparr>embeddings := upsert_embedding e (embeddings t)\<rparr>"]
      by (simp add: bindS_def query_def write_tables_def upsert_all_def)
  qed
qed

lemma rollback_idle:
  "apply_stmt Rollback (idle d) = idle d" "apply_stmt Rollback \<lparr>store = d, txn = t\<rparr> = idle d"
  by (simp_all add: idle_def)

text \<open>
  The \<open>try\<close> block alone. When a row or the \<open>COMMIT\<close> fails, the rows written so far
  are in the open transaction of the client, not in the store.
\<close>

lemma saveEmbeddings_try_result:
  "saveEmbeddings_try E rows (idle d) =
     (if query_fails E SelectEmbeddingColumnType \<or> query_fails E Begin
      then (Inl StorageError, idle d)
      else if list_ex (\<lambda>e. query_fails E (upsert_stmt d e)) rows
      then (Inl StorageError,
            \<lparr>store = d,
             txn = Some (d\<lparr>embeddings :=
                     upsert_all (takeWhile (\<lambda>e. \<not> query_fails E (upsert_stmt d e)) rows)
                       (embeddings d)\<rparr>)\<rparr>)
      else if query_fails E Commit
      then (Inl StorageError,
            \<lparr>store = d, txn = Some (d\<lparr>embeddings := upsert_all rows (embeddings d)\<rparr>)\<rparr>)
      else (Inr (), idle (d\<lparr>embeddings := upsert_all rows (embeddings d)\<rparr>)))"
proof -
  have tw: "takeWhile (\<lambda>e. \<not> query_fails E (UpsertEmbedding b e)) rows = rows"
    if "\<not> list_ex (\<lambda>e. query_fails E (UpsertEmbedding b e)) rows" for b
    using that by (simp add: list_ex_iff)
  show ?thesis
    by (auto simp add: saveEmbeddings_try_def bindS_def select_isVector_def select_def query_def
        view_def idle_def forS_upserts upsert_stmt_def tw)
qed

text \<open>
  The block with its \<open>catch\<close>. When the \<open>ROLLBACK\<close> is executed, every failure leaves
  the client with the store it had and no open transaction; a run without failure leaves
  it with all rows committed and no open transaction.
\<close>

lemma saveEmbeddings_session_result:
  assumes "\<not> query_fails E Rollback"
  shows "saveEmbeddings_session E rows (idle d) =
     (if query_fails E SelectEmbeddingColumnType \<or> query_fails E Begin
         \<or> list_ex (\<lambda>e. query_fails E (upsert_stmt d e)) rows \<or> query_fails E Commit
      then (Inl StorageError, idle d)
      else (Inr (), idle (d\<lparr>embeddings := upsert_all rows (embeddings d)\<rparr>)))"
  using assms
  by (simp add: saveEmbeddings_session_def tryCatch_def saveEmbeddings_try_result bindS_def
      query_def throwS_def rollback_idle)

text \<open>The store of the released client after a failure, whether or not \<open>ROLLBACK\<close> ran.\<close>

lemma saveEmbeddings_session_store:
  "saveEmbeddings_session E rows (idle d) = (Inl error, c) \<Longrightarrow> store c = d"
  by (auto simp add: saveEmbeddings_session_def tryCatch_def saveEmbeddings_try_result bindS_def
      query_def throwS_def split: if_splits)

text \<open>
  All or nothing: the call either fails and leaves the store as it was, or it succeeds
  and every row of the batch has been upserted, in order.
\<close>

lemma saveEmbeddings_result:
  "saveEmbeddings E rows d =
     (if rows = [] then (Inr (), d)
      else if query_fails E Connect \<or> query_fails E SelectEmbeddingColumnType \<or> query_fails E Begin
              \<or> list_ex (\<lambda>e. query_fails E (upsert_stmt d e)) rows \<or> query_fails E Commit
      then (Inl StorageError, d)
      else (Inr (), d\<lparr>embeddings := upsert_all rows (embeddings d)\<rparr>))"
  by (auto simp add: saveEmbeddings_def with_client_idle saveEmbeddings_session_def tryCatch_def
      saveEmbeddings_try_result bindS_def query_def throwS_def returnS_def)

text \<open>
  C3. \<open>saveEmbeddings\<close> writes the rows of a batch inside one transaction. If the write
  of any row fails, the \<open>catch\<close> block rolls the transaction back: provided the
  \<open>ROLLBACK\<close> statement itself is executed, the client goes back to the pool with no open
  transaction and with the store it had before the call, so no row of the batch is
  persisted then or by a later \<open>COMMIT\<close> on that client, and the error is thrown to the
  caller. The same holds for a failure of any other statement of the block. Whatever
  fails, the \<open>ROLLBACK\<close> included, the call throws and the committed store is unchanged.
\<close>

theorem saveEmbeddings_rollback:
  "(list_ex (\<lambda>e. query_fails E (upsert_stmt d e)) rows \<and> \<not> query_fails E Rollback \<longrightarrow>
      (\<exists>error. saveEmbeddings_session E rows (idle d) = (Inl error, idle d)))
   \<and> (\<not> query_fails E Rollback \<longrightarrow>
      (\<forall>error c. saveEmbeddings_session E rows (idle d) = (Inl error, c) \<longrightarrow> c = idle d))
   \<and> (list_ex (\<lambda>e. query_fails E (upsert_stmt d e)) rows \<longrightarrow>
      (\<exists>error. saveEmbeddings E rows d = (Inl error, d)))
   \<and> (\<forall>error d'. saveEmbeddings E rows d = (Inl error, d') \<longrightarrow> d' = d)"
proof (intro conjI impI allI)
  assume "list_ex (\<lambda>e. query_fails E (upsert_stmt d e)) rows \<and> \<not> query_fails E Rollback"
  then show "\<exists>error. saveEmbeddings_session E rows (idle d) = (Inl error, idle d)"
    by (simp add: saveEmbeddings_session_result)
next
  fix error c
  assume "\<not> query_fails E Rollback"
    and "saveEmbeddings_session E rows (idle d) = (Inl error, c)"
  then show "c = idle d"
    by (simp add: saveEmbeddings_session_result split: if_splits)
next
  assume "list_ex (\<lambda>e. query_fails E (upsert_stmt d e)) rows"
  then show "\<exists>error. saveEmbeddings E rows d = (Inl error, d)"
    by (auto simp: saveEmbeddings_result)
next
  fix error d'
  assume "saveEmbeddings E rows d = (Inl error, d')"
  then show "d' = d"
    by (auto simp: saveEmbeddings_result split: if_splits)
qed

theorem saveEmbeddings_rollback_witness:
  "list_ex (\<lambda>e. query_fails faulty_env (upsert_stmt empty_db e)) [row_a, row_bin]
   \<and> \<not> query_fails faulty_env Rollback
   \<and> (\<exists>error. saveEmbeddings_session faulty_env [row_a, row_bin] (idle empty_db)
                 = (Inl error, idle empty_db))
   \<and> (\<exists>error. saveEmbeddings faulty_env [row_a, row_bin] empty_db = (Inl error, empty_db))"
proof -
  have h: "list_ex (\<lambda>e. query_fails faulty_env (upsert_stmt empty_db e)) [row_a, row_bin]"
    by (simp add: faulty_env_def demo_env_def upsert_stmt_def row_bin_def demo_row_def)
  have r: "\<not> query_fails faulty_env Rollback"
    by (simp add: faulty_env_def demo_env_def)
  show ?thesis
    using h r saveEmbeddings_rollback [of faulty_env empty_db "[row_a, row_bin]"] by blast
qed

text \<open>
  A batch of two rows whose second row the server rejects. The \<open>try\<close> block ends with
  the first row in the open transaction; the block with its \<open>catch\<close> ends with no open
  transaction and the table empty; the method throws and the table is empty. The same
  batch on a server without faults stores both rows.
\<close>

lemma saveEmbeddings_example:
  "saveEmbeddings_try faulty_env [row_a, row_bin] (idle empty_db)
     = (Inl StorageError, \<lparr>store = empty_db, txn = Some (empty_db\<lparr>embeddings := [row_a]\<rparr>)\<rparr>)
   \<and> saveEmbeddings_session faulty_env [row_a, row_bin] (idle empty_db)
       = (Inl StorageError, idle empty_db)
   \<and> saveEmbeddings faulty_env [row_a, row_bin] empty_db = (Inl StorageError, empty_db)
   \<and> saveEmbeddings demo_env [row_a, row_bin] empty_db
       = (Inr (), empty_db\<lparr>embeddings := [row_a, row_bin]\<rparr>)"
proof -
  have f: "query_fails faulty_env (upsert_stmt empty_db row_bin)"
    "\<not> query_fails faulty_env (upsert_stmt empty_db row_a)"
    "\<not> query_fails faulty_env SelectEmbeddingColumnType" "\<not> query_fails faulty_env Begin"
    "\<not> query_fails faulty_env Rollback" "\<not> query_fails faulty_env Connect"
    by (simp_all add: faulty_env_def demo_env_def upsert_stmt_def row_a_def row_bin_def
        demo_row_def js_def)
  have g: "query_fails demo_env q = False" for q by (simp add: demo_env_def)
  have ne: "CodeEmbedding.filePath row_a \<noteq> CodeEmbedding.filePath row_bin"
    by (simp add: row_a_def row_bin_def demo_row_def js_def)
  have up: "upsert_all [row_a, row_bin] (embeddings empty_db) = [row_a, row_bin]"
    "upsert_all [row_a] (embeddings empty_db) = [row_a]"
    using ne by (simp_all add: upsert_all_def empty_db_def)
  have e: "empty_db\<lparr>embeddings := []\<rparr> = empty_db" by (simp add: empty_db_def)
  show ?thesis
    using f up
    by (simp add: saveEmbeddings_try_result saveEmbeddings_session_result saveEmbeddings_result g)
qed

section \<open>Search without vector support\<close>

lemma newest_first_rev_sort: "newest_first (rev (sort_key updatedAt rows))"
proof -
  have "sorted (map updatedAt (sort_key updatedAt rows))" by (rule sorted_sort_key)
  then have "sorted_wrt (\<lambda>a b. updatedAt a \<le> updatedAt b) (sort_key updatedAt rows)"
    by (simp add: sorted_map)
  then show ?thesis by (simp add: newest_first_def sorted_wrt_rev)
qed

lemma search_body_jsonb:
  assumes "embedding_type d = Jsonb" "0 \<le> n"
    and "\<not> query_fails E SelectEmbeddingColumnType" "\<not> query_fails E (SelectRecent scope n)"
  shows "search_body E scope v n \<lparr>store = d, txn = None\<rparr>
         = (Inr (rows_by_recency scope n d), \<lparr>store = d, txn = None\<rparr>)"
  using assms
  by (simp add: search_body_def tryCatch_def bindS_def select_isVector_def select_def
      limited_select_def view_def Let_def)

lemma search_jsonb:
  assumes "embedding_type d = Jsonb" "0 \<le> n" "\<not> query_fails E Connect"
    and "\<not> query_fails E SelectEmbeddingColumnType" "\<not> query_fails E (SelectRecent scope n)"
  shows "with_client (E\<lparr>cosine_distance := delta\<rparr>) (search_body (E\<lparr>cosine_distance := delta\<rparr>) scope v n) d
         = (Inr (rows_by_recency scope n d), d)"
  using assms search_body_jsonb [of d n "E\<lparr>cosine_distance := delta\<rparr>" scope v]
  by (simp add: with_client_def)

text \<open>
  C4. When the embedding column is not of the vector type, and the statements of the
  search do not fail, \<open>searchSimilarCode\<close> returns the first \<open>limit\<close> rows of the
  project's rows ordered by \<open>updated_at\<close> descending, and
  \<open>searchSimilarCodeAcrossProjects\<close> the first \<open>limit\<close> rows of all rows in that order.
  The result is the same for every query vector and every distance function: nothing is
  ranked by similarity.
\<close>

theorem degraded_search:
  assumes "embedding_type d = Jsonb" and "0 \<le> n" and "\<not> query_fails E Connect"
    and "\<not> query_fails E SelectEmbeddingColumnType"
    and "\<not> query_fails E (SelectRecent (Some p) n)" and "\<not> query_fails E (SelectRecent None n)"
  shows "(\<exists>ys. mset ys = mset (filter (\<lambda>r. CodeEmbedding.projectId r = p) (embeddings d))
             \<and> newest_first ys
             \<and> (\<forall>v delta. searchSimilarCode (E\<lparr>cosine_distance := delta\<rparr>) p v n d
                    = (Inr (take (nat n) ys), d)))
       \<and> (\<exists>ys. mset ys = mset (embeddings d)
             \<and> newest_first ys
             \<and> (\<forall>v delta. searchSimilarCodeAcrossProjects (E\<lparr>cosine_distance := delta\<rparr>) v n d
                    = (Inr (take (nat n) ys), d)))"
proof (intro conjI)
  let ?ys = "rev (sort_key updatedAt (filter (in_scope (Some p)) (embeddings d)))"
  have "mset ?ys = mset (filter (\<lambda>r. CodeEmbedding.projectId r = p) (embeddings d))"
    by (simp add: in_scope_def)
  moreover have "newest_first ?ys" by (rule newest_first_rev_sort)
  moreover have "\<forall>v delta. searchSimilarCode (E\<lparr>cosine_distance := delta\<rparr>) p v n d
                    = (Inr (take (nat n) ?ys), d)"
    using search_jsonb [OF assms(1-5)] by (simp add: searchSimilarCode_def rows_by_recency_def)
  ultimately show "\<exists>ys. mset ys = mset (filter (\<lambda>r. CodeEmbedding.projectId r = p) (embeddings d))
             \<and> newest_first ys
             \<and> (\<forall>v delta. searchSimilarCode (E\<lparr>cosine_distance := delta\<rparr>) p v n d
                    = (Inr (take (nat n) ys), d))" by blast
next
  let ?ys = "rev (sort_key updatedAt (filter (in_scope None) (embeddings d)))"
  have "mset ?ys = mset (embeddings d)"
    by (simp add: in_scope_def)
  moreover have "newest_first ?ys" by (rule newest_first_rev_sort)
  moreover have "\<forall>v delta. searchSimilarCodeAcrossProjects (E\<lparr>cosine_distance := delta\<rparr>) v n d
                    = (Inr (take (nat n) ?ys), d)"
    using search_jsonb [OF assms(1-4) assms(6)]
    by (simp add: searchSimilarCodeAcrossProjects_def rows_by_recency_def)
  ultimately show "\<exists>ys. mset ys = mset (embeddings d)
             \<and> newest_first ys
             \<and> (\<forall>v delta. searchSimilarCodeAcrossProjects (E\<lparr>cosine_distance := delta\<rparr>) v n d
                    = (Inr (take (nat n) ys), d))" by blast
qed


theorem degraded_search_witness:
  "embedding_type (empty_db\<lparr>embeddings := [row_a, row_c]\<rparr>) = Jsonb \<and> (0::int) \<le> 1
   \<and> \<not> query_fails demo_env Connect \<and> \<not> query_fails demo_env SelectEmbeddingColumnType
   \<and> \<not> query_fails demo_env (SelectRecent (Some 1) 1) \<and> \<not> query_fails demo_env (SelectRecent None 1)
   \<and> (\<exists>ys. mset ys = mset (filter (\<lambda>r. CodeEmbedding.projectId r = 1)
                                 (embeddings (empty_db\<lparr>embeddings := [row_a, row_c]\<rparr>)))
          \<and> newest_first ys
          \<and> (\<forall>v delta. searchSimilarCode (demo_env\<lparr>cosine_distance := delta\<rparr>) 1 v 1
                           (empty_db\<lparr>embeddings := [row_a, row_c]\<rparr>)
                 = (Inr (take (nat 1) ys), empty_db\<lparr>embeddings := [row_a, row_c]\<rparr>)))"
proof -
  let ?d = "empty_db\<lparr>embeddings := [row_a, row_c]\<rparr>"
  have 1: "embedding_type ?d = Jsonb" by (simp add: empty_db_def)
  have 2: "(0::int) \<le> 1" by simp
  have 3: "\<not> query_fails demo_env Connect" by (simp add: demo_env_def)
  have 4: "\<not> query_fails demo_env SelectEmbeddingColumnType" by (simp add: demo_env_def)
  have 5: "\<not> query_fails demo_env (SelectRecent (Some 1) 1)" by (simp add: demo_env_def)
  have 6: "\<not> query_fails demo_env (SelectRecent None 1)" by (simp add: demo_env_def)
  show ?thesis using 1 2 3 4 5 6 degraded_search [OF 1 2 3 4 5 6] by blast
qed

text \<open>With limit 1 the search returns the row updated last, whatever the query vector.\<close>

lemma degraded_search_example:
  "searchSimilarCode demo_env 1 v 1 (empty_db\<lparr>embeddings := [row_a, row_c]\<rparr>)
     = (Inr [row_c], empty_db\<lparr>embeddings := [row_a, row_c]\<rparr>)"
  by (simp add: searchSimilarCode_def with_client_def search_body_def tryCatch_def bindS_def
      select_isVector_def select_def limited_select_def view_def rows_by_recency_def in_scope_def
      demo_env_def empty_db_def row_a_def row_c_def demo_row_def)


section \<open>Effects of the services\<close>































section \<open>The demo installation, step by step\<close>







lemma demo_no_faults: "query_fails demo_env q = False"
  by (simp add: demo_env_def)

lemma demo_now: "now demo_env = 5"
  by (simp add: demo_env_def)

lemma demo_embed: "embed_api demo_env t = Inr [1]"
  by (simp add: demo_env_def)





section \<open>Branch deletion\<close>

text \<open>
  C8. For every push event whose \<open>after\<close> field is the all-zero commit identifier, the
  handler returns at once: the world is unchanged, so no file is fetched, no embedding
  call is made and nothing is written to storage.
\<close>

theorem branch_deletion_skipped:
  assumes "after event = zero_sha"
  shows "processWebhook E (Push event) w = (SkippedBranchDeletion, w)
       \<and> new_effects w (snd (processWebhook E (Push event) w)) = []"
  using assms by (simp add: processPushEvent_def push_body_def finish_def returnS_def new_effects_def)


theorem branch_deletion_skipped_witness:
  "after (demo_push zero_sha) = zero_sha
   \<and> processWebhook demo_env (Push (demo_push zero_sha)) demo_world = (SkippedBranchDeletion, demo_world)
   \<and> new_effects demo_world (snd (processWebhook demo_env (Push (demo_push zero_sha)) demo_world)) = []"
proof -
  have h: "after (demo_push zero_sha) = zero_sha" by (simp add: demo_push_def)
  show ?thesis using h branch_deletion_skipped [OF h, of demo_env demo_world] by blast
qed


section \<open>The commit gate\<close>







section \<open>Order of the storage writes\<close>






section \<open>Search endpoint\<close>

text \<open>
  C9. For every search request with a non-empty query whose embedding and similarity
  search succeed: with zero results the response has status 404 and an empty result
  list; with at least one result it has status 200 and one item per result, in order,
  built by \<open>result_item\<close>, whose record type has no embedding field.
\<close>

theorem search_status:
  assumes "query' req = Some q" and "q \<noteq> []"
    and "generateEmbedding E q w = (Inr v, w1)"
    and "search_results E req v w1 = (Inr results, w2)"
  shows "(results = [] \<longrightarrow>
            fst (searchCode E req w)
              = \<lparr>status = 404, body = NoMatchBody (js ''No matching code found'') q []\<rparr>)
       \<and> (results \<noteq> [] \<longrightarrow>
            (\<exists>analysis. fst (searchCode E req w)
              = \<lparr>status = 200,
                 body = ResultsBody q (map result_item results) analysis (length results) (now E)\<rparr>))"
  using assms
  by (auto simp: searchCode_def search_handler_def bindS_def returnS_def analyzeCode_def
      external_def split: prod.splits sum.splits)

theorem search_status_witness:
  "query' demo_request = Some (js ''parser'') \<and> js ''parser'' \<noteq> []
   \<and> generateEmbedding demo_env (js ''parser'') demo_world
       = (Inr [1], demo_world\<lparr>trace := [EmbeddingCall (js ''parser'')]\<rparr>)
   \<and> search_results demo_env demo_request [1] (demo_world\<lparr>trace := [EmbeddingCall (js ''parser'')]\<rparr>)
       = (Inr [], demo_world\<lparr>trace := [EmbeddingCall (js ''parser''), DbSearch None 5]\<rparr>)
   \<and> fst (searchCode demo_env demo_request demo_world)
       = \<lparr>status = 404, body = NoMatchBody (js ''No matching code found'') (js ''parser'') []\<rparr>"
proof -
  have 1: "query' demo_request = Some (js ''parser'')" by (simp add: demo_request_def)
  have 2: "js ''parser'' \<noteq> []" by (simp add: js_def)
  have 3: "generateEmbedding demo_env (js ''parser'') demo_world
       = (Inr [1], demo_world\<lparr>trace := [EmbeddingCall (js ''parser'')]\<rparr>)"
    by (simp add: generateEmbedding_def tryCatch_def external_def log_def demo_embed demo_world_def)
  have 4: "search_results demo_env demo_request [1] (demo_world\<lparr>trace := [EmbeddingCall (js ''parser'')]\<rparr>)
       = (Inr [], demo_world\<lparr>trace := [EmbeddingCall (js ''parser''), DbSearch None 5]\<rparr>)"
    by (simp add: search_results_def demo_request_def storage_def log_def
        searchSimilarCodeAcrossProjects_def with_client_def search_body_def tryCatch_def bindS_def
        select_isVector_def select_def limited_select_def view_def rows_by_recency_def
        demo_no_faults demo_world_def empty_db_def)
  show ?thesis using 1 2 3 4 search_status [OF 1 2 3 4] by simp
qed

text \<open>With one stored row the same request is answered 200 with one item.\<close>

lemma search_found_example:
  "fst (searchCode demo_env demo_request stocked_world)
     = \<lparr>status = 200,
        body = ResultsBody (js ''parser'') [result_item row_a] None 1 5\<rparr>"
proof -
  have q: "js ''parser'' \<noteq> []" by (simp add: js_def)
  show ?thesis
    using q
    by (simp add: searchCode_def search_handler_def bindS_def returnS_def
        generateEmbedding_def tryCatch_def external_def log_def demo_embed demo_now
        search_results_def demo_request_def storage_def
        searchSimilarCodeAcrossProjects_def with_client_def search_body_def
        select_isVector_def select_def limited_select_def view_def rows_by_recency_def
        in_scope_def demo_no_faults stocked_world_def empty_db_def)
qed


end
